theory Spec2Isabelle
  imports Main "HOL-Library.AList"
begin

section \<open>JavaScript values\<close>

text \<open>
  The upstream SDK hands the relay a parsed JSON document, and the relay never checks its
  shape before reading it. The values are therefore modelled untyped, as JavaScript sees
  them: \<open>undefined\<close>, \<open>null\<close>, booleans, numbers, strings, arrays and plain objects (an
  association list of own properties, read with \<open>map_of\<close>). A value never holds a
  function, as in JSON.

  Numbers: \<open>JNum n\<close> is the Number that the JSON text of the integer \<open>n\<close> parses to, that
  is, \<open>n\<close> itself up to \<open>2^53\<close> in magnitude and the nearest double beyond (fractions and
  \<open>NaN\<close> are left out).

  Strings: a JavaScript string is kept as its UTF-8 encoding, one character of the model
  for each byte (a lone surrogate as the three bytes of its generalised encoding). ASCII
  text is one character for each code unit, \<open>U+00A0\<close> is the two bytes \<open>C2 A0\<close>, and so on.
  The tests of the program for an ASCII prefix or substring are the same tests on the
  bytes; where JavaScript counts code units or looks at a character beyond ASCII, the model
  reads the encoding.
\<close>

datatype jsval =
    JUndefined
  | JNull
  | JBool bool
  | JNum int
  | JStr string
  | JArr "jsval list"
  | JObj "(string \<times> jsval) list"

type_synonym jsobj = "(string \<times> jsval) list"

text \<open>\<open>ToBoolean\<close>: what \<open>if (v)\<close>, \<open>!v\<close>, \<open>v && w\<close> and \<open>v || w\<close> test.\<close>

fun truthy :: "jsval \<Rightarrow> bool" where
  "truthy JUndefined = False"
| "truthy JNull = False"
| "truthy (JBool b) = b"
| "truthy (JNum n) = (n \<noteq> 0)"
| "truthy (JStr s) = (s \<noteq> [])"
| "truthy (JArr xs) = True"
| "truthy (JObj kvs) = True"

fun nullish :: "jsval \<Rightarrow> bool" where
  "nullish JUndefined = True"
| "nullish JNull = True"
| "nullish v = False"

subsection \<open>The encoding of strings\<close>

text \<open>
  A continuation byte is \<open>80\<close> to \<open>BF\<close>; the first byte of a code point beyond the basic
  plane is \<open>F0\<close> or above, and such a code point is two UTF-16 code units.
\<close>

definition continuation :: "char \<Rightarrow> bool" where
  "continuation c = (digit7 c \<and> \<not> digit6 c)"

definition four_byte_lead :: "char \<Rightarrow> bool" where
  "four_byte_lead c = (digit7 c \<and> digit6 c \<and> digit5 c \<and> digit4 c)"

text \<open>\<open>s.length\<close>: the number of UTF-16 code units.\<close>

definition utf16_length :: "string \<Rightarrow> nat" where
  "utf16_length s =
     sum_list (map (\<lambda>c. if continuation c then 0 else if four_byte_lead c then 2 else 1) s)"

text \<open>The code points of a string, each with the bytes of its encoding.\<close>

function code_points :: "string \<Rightarrow> string list" where
  "code_points [] = []"
| "code_points (c # cs) =
     (c # takeWhile continuation cs) # code_points (dropWhile continuation cs)"
  by pat_completeness auto
termination
  by (relation "measure length") (auto simp: le_imp_less_Suc length_dropWhile_le)

text \<open>
  \<open>s[0]\<close>: the first code unit. For a code point beyond the basic plane that is its high
  surrogate, \<open>D800 + (cp - 10000) div 400\<close> in hexadecimal, here in its three-byte form.
\<close>

definition high_surrogate :: "string \<Rightarrow> string" where
  "high_surrogate p =
     (let cp = (of_char (p ! 0) mod 8) * 262144 + (of_char (p ! 1) mod 64) * 4096
               + (of_char (p ! 2) mod 64) * 64 + (of_char (p ! 3) mod 64 :: nat);
          hs = 55296 + (cp - 65536) div 1024
      in [CHR 0xED, char_of (128 + (hs div 64) mod 64), char_of (128 + hs mod 64)])"

definition first_unit :: "string \<Rightarrow> string" where
  "first_unit s =
     (case code_points s of
        [] \<Rightarrow> []
      | p # _ \<Rightarrow> if length p = 4 then high_surrogate p else p)"

subsection \<open>Reading properties\<close>

definition lookup :: "jsobj \<Rightarrow> string \<Rightarrow> jsval" where
  "lookup kvs k = (case map_of kvs k of None \<Rightarrow> JUndefined | Some v \<Rightarrow> v)"

text \<open>
  \<open>v.k\<close> on a value that is neither \<open>undefined\<close> nor \<open>null\<close>, for the property names the
  program reads (\<open>promptFeedback\<close>, \<open>blockReason\<close>, \<open>candidates\<close>, \<open>finishReason\<close>,
  \<open>safetyRatings\<close>, \<open>content\<close>, \<open>parts\<close>, \<open>inlineData\<close>, \<open>mimeType\<close>, \<open>data\<close>, \<open>text\<close>,
  \<open>response\<close>, \<open>length\<close>): of these only \<open>length\<close> exists on a prototype, on strings and
  arrays. Method calls (\<open>startsWith\<close>, \<open>find\<close>) are modelled where they occur.
\<close>

fun read_prop :: "jsval \<Rightarrow> string \<Rightarrow> jsval" where
  "read_prop (JObj kvs) k = lookup kvs k"
| "read_prop (JArr xs) k = (if k = ''length'' then JNum (int (length xs)) else JUndefined)"
| "read_prop (JStr s) k = (if k = ''length'' then JNum (int (utf16_length s)) else JUndefined)"
| "read_prop v k = JUndefined"

text \<open>\<open>v[0]\<close> on a value that is neither \<open>undefined\<close> nor \<open>null\<close>.\<close>

fun index0 :: "jsval \<Rightarrow> jsval" where
  "index0 (JArr xs) = (case xs of [] \<Rightarrow> JUndefined | x # _ \<Rightarrow> x)"
| "index0 (JStr s) = (if s = [] then JUndefined else JStr (first_unit s))"
| "index0 (JObj kvs) = lookup kvs ''0''"
| "index0 v = JUndefined"

text \<open>Optional chaining, \<open>v?.k\<close> and \<open>v?.[0]\<close>: never throws.\<close>

definition opt_get :: "jsval \<Rightarrow> string \<Rightarrow> jsval" where
  "opt_get v k = (if nullish v then JUndefined else read_prop v k)"

definition opt_index0 :: "jsval \<Rightarrow> jsval" where
  "opt_index0 v = (if nullish v then JUndefined else index0 v)"

subsection \<open>Thrown values\<close>

text \<open>
  What a \<open>throw\<close> carries: an \<open>ApiError\<close> of \<open>utils/errorHandler.js\<close> (status code, message,
  details; details default to \<open>null\<close>), or any other \<open>Error\<close> object, with its name, its
  message and its further own properties (\<open>status\<close> and \<open>response\<close> on an SDK error, \<open>type\<close>
  on a body-parser error).
\<close>

datatype thrown =
    ApiError nat string jsval
  | OtherError string string jsobj

fun message :: "thrown \<Rightarrow> string" where
  "message (ApiError sc m d) = m"
| "message (OtherError n m ps) = m"

text \<open>
  The engine's own exceptions. The wording of their messages is V8's; no theorem below
  depends on it.
\<close>

definition TypeError :: "string \<Rightarrow> thrown" where
  "TypeError m = OtherError ''TypeError'' m []"

definition and_then :: "thrown + 'a \<Rightarrow> ('a \<Rightarrow> thrown + 'b) \<Rightarrow> thrown + 'b" where
  "and_then m f = (case m of Inl e \<Rightarrow> Inl e | Inr x \<Rightarrow> f x)"

text \<open>\<open>v.k\<close> and \<open>v[0]\<close>: a \<open>TypeError\<close> on \<open>undefined\<close> and \<open>null\<close>.\<close>

definition cannot_read :: "jsval \<Rightarrow> string \<Rightarrow> thrown" where
  "cannot_read v k = TypeError (''Cannot read properties of ''
      @ (if v = JNull then ''null'' else ''undefined'') @ '' (reading ''
      @ [CHR 0x27] @ k @ [CHR 0x27] @ '')'')"

definition get :: "jsval \<Rightarrow> string \<Rightarrow> thrown + jsval" where
  "get v k = (if nullish v then Inl (cannot_read v k) else Inr (read_prop v k))"

definition get_index0 :: "jsval \<Rightarrow> thrown + jsval" where
  "get_index0 v = (if nullish v then Inl (cannot_read v ''0'') else Inr (index0 v))"

subsection \<open>Strings\<close>

definition startsWith :: "string \<Rightarrow> string \<Rightarrow> bool" where
  "startsWith s p = (take (length p) s = p)"

fun str_includes :: "string \<Rightarrow> string \<Rightarrow> bool" where
  "str_includes [] p = (p = [])"
| "str_includes (c # cs) p = (startsWith (c # cs) p \<or> str_includes cs p)"

text \<open>
  \<open>toLowerCase\<close>. The ASCII capital letters become small letters, and \<open>U+212A\<close> KELVIN SIGN
  (\<open>E2 84 AA\<close>) becomes \<open>k\<close>. JavaScript also maps the capital letters of other scripts
  to their small letters; the model keeps those as they are. The program applies
  \<open>toLowerCase\<close> only to look for the substring \<open>blocked\<close> in the result, and the ASCII
  capitals and the Kelvin sign are the only characters whose lower case is one of its
  letters, so the simplification cannot change the answer.
\<close>

definition lower_char :: "char \<Rightarrow> char" where
  "lower_char c =
     (case map_of (zip ''ABCDEFGHIJKLMNOPQRSTUVWXYZ'' ''abcdefghijklmnopqrstuvwxyz'') c of
        Some l \<Rightarrow> l
      | None \<Rightarrow> c)"

fun toLowerCase :: "string \<Rightarrow> string" where
  "toLowerCase [] = []"
| "toLowerCase (c # cs) =
     (if c = CHR 0xE2 \<and> take 2 cs = [CHR 0x84, CHR 0xAA]
      then CHR ''k'' # toLowerCase (drop 2 cs)
      else lower_char c # toLowerCase cs)"

text \<open>
  \<open>trim\<close> removes white space and line terminators from both ends. These are, with their
  encodings: \<open>U+0009\<close> to \<open>U+000D\<close> and \<open>U+0020\<close> (one byte each), \<open>U+00A0\<close> (\<open>C2 A0\<close>),
  \<open>U+1680\<close> (\<open>E1 9A 80\<close>), \<open>U+2000\<close> to \<open>U+200A\<close> (\<open>E2 80 80\<close> to \<open>E2 80 8A\<close>),
  \<open>U+2028\<close> and \<open>U+2029\<close> (\<open>E2 80 A8\<close>, \<open>E2 80 A9\<close>), \<open>U+202F\<close> (\<open>E2 80 AF\<close>),
  \<open>U+205F\<close> (\<open>E2 81 9F\<close>), \<open>U+3000\<close> (\<open>E3 80 80\<close>) and \<open>U+FEFF\<close> (\<open>EF BB BF\<close>).
\<close>

definition white_space :: "string list" where
  "white_space =
     [[CHR 0x09], [CHR 0x0A], [CHR 0x0B], [CHR 0x0C], [CHR 0x0D], [CHR 0x20],
      [CHR 0xC2, CHR 0xA0],
      [CHR 0xE1, CHR 0x9A, CHR 0x80],
      [CHR 0xE2, CHR 0x80, CHR 0x80], [CHR 0xE2, CHR 0x80, CHR 0x81],
      [CHR 0xE2, CHR 0x80, CHR 0x82], [CHR 0xE2, CHR 0x80, CHR 0x83],
      [CHR 0xE2, CHR 0x80, CHR 0x84], [CHR 0xE2, CHR 0x80, CHR 0x85],
      [CHR 0xE2, CHR 0x80, CHR 0x86], [CHR 0xE2, CHR 0x80, CHR 0x87],
      [CHR 0xE2, CHR 0x80, CHR 0x88], [CHR 0xE2, CHR 0x80, CHR 0x89],
      [CHR 0xE2, CHR 0x80, CHR 0x8A],
      [CHR 0xE2, CHR 0x80, CHR 0xA8], [CHR 0xE2, CHR 0x80, CHR 0xA9],
      [CHR 0xE2, CHR 0x80, CHR 0xAF],
      [CHR 0xE2, CHR 0x81, CHR 0x9F],
      [CHR 0xE3, CHR 0x80, CHR 0x80],
      [CHR 0xEF, CHR 0xBB, CHR 0xBF]]"

text \<open>
  The number of bytes of the character of the table \<open>ws\<close> that the string starts with,
  0 if it starts with none; and the string without the characters of \<open>ws\<close> at its start.
\<close>

definition match_length :: "string list \<Rightarrow> string \<Rightarrow> nat" where
  "match_length ws s =
     (case List.find (\<lambda>w. take (length w) s = w) ws of None \<Rightarrow> 0 | Some w \<Rightarrow> length w)"

fun strip :: "string list \<Rightarrow> string \<Rightarrow> string" where
  "strip ws [] = []"
| "strip ws (c # cs) =
     (if match_length ws (c # cs) = 0 then c # cs
      else strip ws (drop (match_length ws (c # cs) - 1) cs))"

definition trimStart :: "string \<Rightarrow> string" where
  "trimStart s = strip white_space s"

text \<open>At the end the same, on the reversed string with the reversed encodings.\<close>

definition trimEnd :: "string \<Rightarrow> string" where
  "trimEnd s = rev (strip (map rev white_space) (rev s))"

definition trim :: "string \<Rightarrow> string" where
  "trim s = trimEnd (trimStart s)"

text \<open>
  \<open>ToString\<close>, as a template literal \<open>`${v}`\<close> applies it. An array joins its elements with
  commas (\<open>undefined\<close> and \<open>null\<close> elements as the empty string). A plain object prints as
  \<open>[object Object]\<close>, unless an own property \<open>toString\<close> shadows the inherited method:
  no JSON value is callable, and the conversion throws. \<open>None\<close> is that throw.
\<close>

fun show_nat :: "nat \<Rightarrow> string" where
  "show_nat n = (if n < 10 then [''0123456789'' ! n]
                 else show_nat (n div 10) @ [''0123456789'' ! (n mod 10)])"

text \<open>
  \<open>Number::toString\<close> for an integer. The Number is the double nearest to the integer
  (53 significant bits, ties to even); from \<open>2^1024\<close> on it is \<open>Infinity\<close>. Its digits are
  the shortest decimal that still rounds to it, the closest such if there are several;
  with more than 21 digits before the decimal point the exponent form is used.
\<close>

fun bit_length :: "nat \<Rightarrow> nat" where
  "bit_length n = (if n = 0 then 0 else Suc (bit_length (n div 2)))"

definition to_double :: "nat \<Rightarrow> nat" where
  "to_double x =
     (if bit_length x \<le> 53 then x
      else (let e = bit_length x - 53;
                q = x div 2 ^ e;
                r = x mod 2 ^ e;
                half = 2 ^ (e - 1)
            in (if half < r \<or> (r = half \<and> odd q) then q + 1 else q) * 2 ^ e))"

text \<open>
  \<open>shortest v j\<close>: the multiple of a power of ten, \<open>10 ^ j\<close> at most, that is closest to
  the double \<open>v\<close> and rounds to it, for the largest power that has one.
\<close>

fun shortest :: "nat \<Rightarrow> nat \<Rightarrow> nat" where
  "shortest v 0 = v"
| "shortest v (Suc j) =
     (let p = 10 ^ Suc j;
          lo = (v div p) * p;
          hi = lo + p;
          ok_lo = (to_double lo = v);
          ok_hi = (to_double hi = v)
      in if ok_lo \<and> ok_hi then
           (if v - lo < hi - v \<or> (v - lo = hi - v \<and> even (v div p)) then lo else hi)
         else if ok_lo then lo
         else if ok_hi then hi
         else shortest v j)"

definition strip_zeros :: "string \<Rightarrow> string" where
  "strip_zeros ds = rev (dropWhile (\<lambda>c. c = CHR ''0'') (rev ds))"

definition show_number :: "nat \<Rightarrow> string" where
  "show_number x =
     (let v = to_double x in
      if 2 ^ 1024 \<le> v then ''Infinity''
      else (let ds = show_nat (shortest v (length (show_nat v) - 1));
                s = strip_zeros ds
            in if length ds \<le> 21 then ds
               else (if length s = 1 then s else hd s # ''.'' @ tl s)
                    @ ''e+'' @ show_nat (length ds - 1)))"

definition show_int :: "int \<Rightarrow> string" where
  "show_int i = (if i < 0 then ''-'' @ show_number (nat (- i)) else show_number (nat i))"

fun to_string :: "jsval \<Rightarrow> string option"
  and join_comma :: "jsval list \<Rightarrow> string option" where
  "to_string JUndefined = Some ''undefined''"
| "to_string JNull = Some ''null''"
| "to_string (JBool b) = Some (if b then ''true'' else ''false'')"
| "to_string (JNum n) = Some (show_int n)"
| "to_string (JStr s) = Some s"
| "to_string (JArr xs) = join_comma xs"
| "to_string (JObj kvs) =
     (if ''toString'' \<in> set (map fst kvs) then None else Some ''[object Object]'')"
| "join_comma [] = Some ''''"
| "join_comma (x # xs) =
     (case (if nullish x then Some '''' else to_string x) of
        None \<Rightarrow> None
      | Some a \<Rightarrow>
          (if xs = [] then Some a
           else (case join_comma xs of None \<Rightarrow> None | Some b \<Rightarrow> Some (a @ '','' @ b))))"

definition template :: "jsval \<Rightarrow> thrown + string" where
  "template v = (case to_string v of
       None \<Rightarrow> Inl (TypeError ''Cannot convert object to primitive value'')
     | Some s \<Rightarrow> Inr s)"

section \<open>The response classifier: \<open>GeminiModel.processResponse\<close>\<close>

text \<open>
  The classifier returns \<open>{type, data}\<close>: the type is one of the strings \<open>image\<close>, \<open>text\<close>,
  \<open>empty\<close>, \<open>error\<close>, and \<open>data\<close> is an object literal, kept with its properties in the
  order the source writes them.
\<close>

record outcome =
  type :: string
  data :: jsobj

text \<open>\<open>part.inlineData && part.inlineData.mimeType.startsWith('image/')\<close>\<close>

definition startsWith_call :: "jsval \<Rightarrow> string \<Rightarrow> thrown + bool" where
  "startsWith_call v p =
     (case v of
        JStr s \<Rightarrow> Inr (startsWith s p)
      | JUndefined \<Rightarrow> Inl (cannot_read v ''startsWith'')
      | JNull \<Rightarrow> Inl (cannot_read v ''startsWith'')
      | _ \<Rightarrow> Inl (TypeError ''part.inlineData.mimeType.startsWith is not a function''))"

definition is_image_part :: "jsval \<Rightarrow> thrown + bool" where
  "is_image_part part =
     and_then (get part ''inlineData'') (\<lambda>inlineData.
       if \<not> truthy inlineData then Inr False
       else and_then (get inlineData ''mimeType'') (\<lambda>mimeType.
              startsWith_call mimeType ''image/''))"

text \<open>
  \<open>for (const part of parts)\<close>: an array yields its elements, a string its code points;
  nothing else is iterable.
\<close>

definition iterate :: "jsval \<Rightarrow> thrown + jsval list" where
  "iterate v =
     (case v of
        JArr xs \<Rightarrow> Inr xs
      | JStr s \<Rightarrow> Inr (map JStr (code_points s))
      | _ \<Rightarrow> Inl (TypeError ''parts is not iterable''))"

text \<open>
  The loop of \<open>src/app.js\<close>, lines 450 to 461, over the three locals \<open>textContent\<close>
  (\<open>null\<close> or a string, here \<open>None\<close> or \<open>Some\<close>), \<open>imageData\<close> and \<open>imageMimeType\<close>.
  An image part overwrites the image found before; the text of every other part that
  has a string \<open>text\<close> is appended.
\<close>

fun scan_parts :: "jsval list \<Rightarrow> string option \<times> jsval \<times> jsval
    \<Rightarrow> thrown + (string option \<times> jsval \<times> jsval)" where
  "scan_parts [] acc = Inr acc"
| "scan_parts (part # rest) (textContent, imageData, imageMimeType) =
     and_then (is_image_part part) (\<lambda>is_image.
       if is_image then
         and_then (get part ''inlineData'') (\<lambda>inlineData.
         and_then (get inlineData ''data'') (\<lambda>d.
         and_then (get inlineData ''mimeType'') (\<lambda>m.
           scan_parts rest (textContent, d, m))))
       else
         and_then (get part ''text'') (\<lambda>t.
           case t of
             JStr s \<Rightarrow> scan_parts rest
                 (Some ((case textContent of None \<Rightarrow> '''' | Some a \<Rightarrow> a) @ s),
                  imageData, imageMimeType)
           | _ \<Rightarrow> scan_parts rest (textContent, imageData, imageMimeType)))"

definition text_value :: "string option \<Rightarrow> jsval" where
  "text_value t = (case t of None \<Rightarrow> JNull | Some s \<Rightarrow> JStr s)"

text \<open>\<open>`${apiResponse.promptFeedback.blockReason}`\<close>\<close>

definition blockReason_text :: "jsval \<Rightarrow> thrown + string" where
  "blockReason_text apiResponse =
     and_then (get apiResponse ''promptFeedback'') (\<lambda>promptFeedback.
     and_then (get promptFeedback ''blockReason'') template)"

text \<open>What follows the loop (lines 463 to 488).\<close>

definition scan_result :: "jsval \<Rightarrow> string option \<times> jsval \<times> jsval \<Rightarrow> thrown + outcome" where
  "scan_result parts acc =
     (case acc of (textContent, imageData, imageMimeType) \<Rightarrow>
        if truthy imageData then
          and_then (template imageMimeType) (\<lambda>m.
          and_then (template imageData) (\<lambda>d.
            Inr \<lparr>type = ''image'',
                 data = [(''imageUrl'', JStr (''data:'' @ m @ '';base64,'' @ d)),
                         (''text'', text_value textContent)]\<rparr>))
        else if truthy (text_value textContent) then
          Inr \<lparr>type = ''text'', data = [(''text'', text_value textContent)]\<rparr>
        else
          Inr \<lparr>type = ''empty'',
               data = [(''text'', JStr ''Model response did not contain usable text or image data.''),
                       (''rawParts'', parts)]\<rparr>)"

text \<open>
  Lines 382 to 444: everything the classifier decides before it looks at the parts.
  \<open>Inl\<close> is an outcome returned early, \<open>Inr\<close> the value of \<open>candidate.content.parts\<close>.
  The later revision of the classifier in \<open>src/unnamed/part_003\<close> (lines 431 to 492) has the
  same text here, so both models below start with this function.
\<close>

definition before_parts :: "jsval \<Rightarrow> thrown + (outcome + jsval)" where
  "before_parts apiResponse =
    (if \<not> truthy apiResponse then
       Inr (Inl \<lparr>type = ''error'',
                 data = [(''error'', JStr ''Received no response object from API.'')]\<rparr>)
     else
     and_then (get apiResponse ''promptFeedback'') (\<lambda>promptFeedback.
     if truthy (opt_get promptFeedback ''blockReason'') then
       and_then (blockReason_text apiResponse) (\<lambda>logged.
       and_then (blockReason_text apiResponse) (\<lambda>reason.
       and_then (get apiResponse ''candidates'') (\<lambda>candidates.
         Inr (Inl \<lparr>type = ''error'',
              data = [(''error'', JStr (''Content generation blocked due to: '' @ reason)),
                      (''details'', JObj [(''safetyRatings'',
                          opt_get (opt_index0 candidates) ''safetyRatings'')])]\<rparr>))))
     else
     and_then (get apiResponse ''candidates'') (\<lambda>candidates.
     and_then (if \<not> truthy candidates then Inr True
               else and_then (get candidates ''length'') (\<lambda>n. Inr (n = JNum 0))) (\<lambda>no_candidates.
     if no_candidates then
       (let finishReason = opt_get (opt_index0 candidates) ''finishReason'' in
        if truthy finishReason \<and> finishReason \<noteq> JStr ''STOP'' then
          and_then (template finishReason) (\<lambda>reason.
            Inr (Inl \<lparr>type = ''text'',
                 data = [(''text'', JStr (''Generation stopped due to: '' @ reason
                                          @ ''. No content available.''))]\<rparr>))
        else
          Inr (Inl \<lparr>type = ''empty'',
                    data = [(''text'', JStr ''The model did not return any content.'')]\<rparr>))
     else
     and_then (get_index0 candidates) (\<lambda>candidate.
     and_then (get candidate ''finishReason'') (\<lambda>finishReason.
     if truthy finishReason \<and> finishReason \<noteq> JStr ''STOP'' then
       and_then (template finishReason) (\<lambda>reason.
         if finishReason = JStr ''SAFETY'' then
           and_then (get candidate ''safetyRatings'') (\<lambda>safetyRatings.
             Inr (Inl \<lparr>type = ''error'',
                  data = [(''error'', JStr ''Content generation stopped due to safety concerns.''),
                          (''details'', JObj [(''safetyRatings'', safetyRatings)])]\<rparr>))
         else if finishReason = JStr ''RECITATION'' then
           Inr (Inl \<lparr>type = ''error'',
                data = [(''error'',
                         JStr ''Content generation stopped due to potential recitation.'')]\<rparr>)
         else
           Inr (Inl \<lparr>type = ''text'',
                data = [(''text'', JStr (''Generation stopped unexpectedly ('' @ reason
                                         @ ''). Partial content might be missing.''))]\<rparr>))
     else
     and_then (get candidate ''content'') (\<lambda>content.
     and_then (if \<not> truthy content then Inr True
               else and_then (get content ''parts'') (\<lambda>parts.
                 if \<not> truthy parts then Inr True
                 else and_then (get parts ''length'') (\<lambda>n. Inr (n = JNum 0)))) (\<lambda>no_parts.
     if no_parts then
       Inr (Inl \<lparr>type = ''empty'',
            data = [(''text'', JStr ''The model returned a candidate but no content parts.'')]\<rparr>)
     else
     and_then (get content ''parts'') (\<lambda>parts. Inr (Inr parts))))))))))"

text \<open>The body of the \<open>try\<close> block of \<open>src/app.js\<close>, lines 380 to 488.\<close>

definition processResponse_try :: "jsval \<Rightarrow> thrown + outcome" where
  "processResponse_try apiResponse =
     and_then (before_parts apiResponse) (\<lambda>decided.
       case decided of
         Inl result \<Rightarrow> Inr result
       | Inr parts \<Rightarrow>
           and_then (iterate parts) (\<lambda>elements.
           and_then (scan_parts elements (None, JNull, JNull)) (\<lambda>acc.
             scan_result parts acc)))"

text \<open>
  The \<open>catch\<close> block, lines 489 to 499. \<open>NODE_ENV\<close> is the environment variable, \<open>None\<close>
  when it is not set.
\<close>

definition processResponse_catch :: "string option \<Rightarrow> jsval \<Rightarrow> thrown \<Rightarrow> outcome" where
  "processResponse_catch NODE_ENV apiResponse error =
     \<lparr>type = ''error'',
      data = [(''error'', JStr (''Failed to process the API response: '' @ message error)),
              (''rawResponse'',
                 if NODE_ENV = Some ''development'' then apiResponse else JUndefined)]\<rparr>"

definition processResponse :: "string option \<Rightarrow> jsval \<Rightarrow> outcome" where
  "processResponse NODE_ENV apiResponse =
     (case processResponse_try apiResponse of
        Inr result \<Rightarrow> result
      | Inl error \<Rightarrow> processResponse_catch NODE_ENV apiResponse error)"

subsection \<open>The find-based revision (\<open>src/unnamed/part_003\<close>, lines 427 to 542)\<close>

text \<open>
  \<open>parts.find(...)\<close> and \<open>parts.filter(...)\<close>: only an array has these methods; calling them
  on any other value is a \<open>TypeError\<close>.
\<close>

definition array_method :: "jsval \<Rightarrow> string \<Rightarrow> thrown + jsval list" where
  "array_method v name =
     (case v of
        JArr xs \<Rightarrow> Inr xs
      | JUndefined \<Rightarrow> Inl (cannot_read v name)
      | JNull \<Rightarrow> Inl (cannot_read v name)
      | _ \<Rightarrow> Inl (TypeError (''parts.'' @ name @ '' is not a function'')))"

text \<open>\<open>find\<close> returns the first element the predicate accepts, \<open>undefined\<close> when there is none.\<close>

fun find_image :: "jsval list \<Rightarrow> thrown + jsval" where
  "find_image [] = Inr JUndefined"
| "find_image (part # rest) =
     and_then (is_image_part part) (\<lambda>is_image.
       if is_image then Inr part else find_image rest)"

text \<open>\<open>.filter(part => typeof part.text === 'string').map(part => part.text)\<close>\<close>

fun filter_text :: "jsval list \<Rightarrow> thrown + string list" where
  "filter_text [] = Inr []"
| "filter_text (part # rest) =
     and_then (get part ''text'') (\<lambda>t.
     and_then (filter_text rest) (\<lambda>ts.
       case t of JStr s \<Rightarrow> Inr (s # ts) | _ \<Rightarrow> Inr ts))"

text \<open>\<open>.join('\n')\<close> on an array of strings.\<close>

fun join_newline :: "string list \<Rightarrow> string" where
  "join_newline [] = ''''"
| "join_newline [s] = s"
| "join_newline (s # t # ts) = s @ ''\<newline>'' @ join_newline (t # ts)"

definition processResponse_find_try :: "jsval \<Rightarrow> thrown + outcome" where
  "processResponse_find_try apiResponse =
     and_then (before_parts apiResponse) (\<lambda>decided.
       case decided of
         Inl result \<Rightarrow> Inr result
       | Inr parts \<Rightarrow>
           and_then (array_method parts ''find'') (\<lambda>elements.
           and_then (find_image elements) (\<lambda>imagePart.
             if truthy imagePart then
               and_then (get imagePart ''inlineData'') (\<lambda>inlineData.
               and_then (get inlineData ''mimeType'') (\<lambda>mimeType.
               and_then (template mimeType) (\<lambda>m.
               and_then (get inlineData ''data'') (\<lambda>d.
               and_then (template d) (\<lambda>b.
                 Inr \<lparr>type = ''image'',
                      data = [(''imageUrl'', JStr (''data:'' @ m @ '';base64,'' @ b))]\<rparr>)))))
             else
               and_then (array_method parts ''filter'') (\<lambda>elements.
               and_then (filter_text elements) (\<lambda>texts.
                 let textContent = join_newline texts in
                 if textContent \<noteq> [] then
                   Inr \<lparr>type = ''text'', data = [(''text'', JStr textContent)]\<rparr>
                 else
                   Inr \<lparr>type = ''empty'',
                        data = [(''text'',
                                 JStr ''Model response did not contain usable text or image data.''),
                                (''rawParts'', parts)]\<rparr>)))))"

definition processResponse_find :: "string option \<Rightarrow> jsval \<Rightarrow> outcome" where
  "processResponse_find NODE_ENV apiResponse =
     (case processResponse_find_try apiResponse of
        Inr result \<Rightarrow> result
      | Inl error \<Rightarrow> processResponse_catch NODE_ENV apiResponse error)"

section \<open>The credential rotator: \<open>getNextGenAI\<close>\<close>

text \<open>
  \<open>apiKeys\<close> is the module constant \<open>[config.googleAiApiKey1, config.googleAiApiKey2]\<close>,
  filled from the environment, and \<open>nextKeyIndex\<close> the module variable. The function reads
  the key under the cursor (\<open>undefined\<close>, here \<open>None\<close>, out of range) and advances the cursor
  modulo the length of the pool. The pool is never empty: the module throws at load time
  unless both keys are set.
\<close>

definition apiKeys :: "string \<Rightarrow> string \<Rightarrow> string list" where
  "apiKeys googleAiApiKey1 googleAiApiKey2 = [googleAiApiKey1, googleAiApiKey2]"

definition getNextGenAI :: "string list \<Rightarrow> nat \<Rightarrow> string option \<times> nat" where
  "getNextGenAI keys nextKeyIndex =
     (let selectedKey = (if nextKeyIndex < length keys then Some (keys ! nextKeyIndex) else None)
      in (selectedKey, (nextKeyIndex + 1) mod length keys))"

text \<open>
  A run of sequential calls from a given cursor: for each call, the cursor value it read
  and the key it returned.
\<close>

fun dispatch :: "string list \<Rightarrow> nat \<Rightarrow> nat \<Rightarrow> (nat \<times> string option) list" where
  "dispatch keys nextKeyIndex 0 = []"
| "dispatch keys nextKeyIndex (Suc m) =
     (case getNextGenAI keys nextKeyIndex of
        (selectedKey, next) \<Rightarrow> (nextKeyIndex, selectedKey) # dispatch keys next m)"

fun cursor_after :: "string list \<Rightarrow> nat \<Rightarrow> nat \<Rightarrow> nat" where
  "cursor_after keys nextKeyIndex 0 = nextKeyIndex"
| "cursor_after keys nextKeyIndex (Suc m) =
     cursor_after keys (snd (getNextGenAI keys nextKeyIndex)) m"

definition times_used :: "nat \<Rightarrow> (nat \<times> string option) list \<Rightarrow> nat" where
  "times_used i log = length (filter (\<lambda>entry. fst entry = i) log)"

section \<open>The model layer: \<open>GeminiModel.generateContent\<close>\<close>

text \<open>
  The process state is the rotation cursor. Two fields that the source does not have
  record what the properties below count: \<open>model_calls\<close>, the number of entries into
  \<open>GeminiModel.generateContent\<close>, and \<open>upstream_calls\<close>, the SDK calls made, each with the
  key of its client and the parts sent.
\<close>

datatype req_part =
    TextPart string
  | InlineDataPart "nat list" string

record state =
  nextKeyIndex :: nat
  model_calls :: nat
  upstream_calls :: "(string option \<times> req_part list) list"

text \<open>
  The backend is a parameter: \<open>backend key parts\<close> is what \<open>model.generateContent(parts)\<close>
  resolves to (the \<open>result\<close> object) or rejects with, for a client built on \<open>key\<close>.
  \<open>InlineDataPart buffer mimeType\<close> stands for
  \<open>{inlineData: {data: buffer.toString('base64'), mimeType}}\<close>.
\<close>

type_synonym sdk = "string option \<Rightarrow> req_part list \<Rightarrow> thrown + jsval"

text \<open>
  Lines 320 to 341 of \<open>src/app.js\<close>: the upstream call and the classification of what it
  returns.
\<close>

definition send_request ::
  "string option \<Rightarrow> sdk \<Rightarrow> string option \<Rightarrow> req_part list \<Rightarrow> state
     \<Rightarrow> (thrown + outcome) \<times> state" where
  "send_request NODE_ENV backend genAI messageParts st =
     (and_then (backend genAI messageParts) (\<lambda>result.
      and_then (get result ''response'') (\<lambda>response.
        Inr (processResponse NODE_ENV response))),
      st\<lparr>upstream_calls := upstream_calls st @ [(genAI, messageParts)]\<rparr>)"

text \<open>
  The \<open>try\<close> block, lines 290 to 341. \<open>imageBuffer\<close> is a \<open>Buffer\<close> or \<open>null\<close>,
  \<open>imageMimeType\<close> a string or \<open>null\<close>; \<open>imageBuffer && imageMimeType\<close> holds when
  neither is \<open>null\<close> and the MIME type is not the empty string.
\<close>

definition generateContent_try ::
  "string option \<Rightarrow> string list \<Rightarrow> sdk \<Rightarrow> state \<Rightarrow> string \<Rightarrow> nat list option \<Rightarrow> string option
     \<Rightarrow> (thrown + outcome) \<times> state" where
  "generateContent_try NODE_ENV keys backend st prompt imageBuffer imageMimeType =
     (case getNextGenAI keys (nextKeyIndex st) of (genAI, next) \<Rightarrow>
        let st1 = st\<lparr>nextKeyIndex := next\<rparr> in
        (case (imageBuffer, imageMimeType) of
           (Some buffer, Some mimeType) \<Rightarrow>
             if mimeType \<noteq> [] then
               (if \<not> startsWith mimeType ''image/'' then
                  (Inl (ApiError 400 ''Invalid image MIME type provided.'' JNull), st1)
                else
                  send_request NODE_ENV backend genAI
                    [TextPart prompt, InlineDataPart buffer mimeType] st1)
             else send_request NODE_ENV backend genAI [TextPart prompt] st1
         | _ \<Rightarrow> send_request NODE_ENV backend genAI [TextPart prompt] st1))"

text \<open>Properties of a thrown value, as the handlers read them.\<close>

fun err_prop :: "thrown \<Rightarrow> string \<Rightarrow> jsval" where
  "err_prop (ApiError statusCode m details) k =
     (if k = ''statusCode'' then JNum (int statusCode)
      else if k = ''message'' then JStr m
      else if k = ''details'' then details
      else if k = ''name'' then JStr ''ApiError''
      else JUndefined)"
| "err_prop (OtherError name m props) k =
     (if k = ''name'' then JStr name
      else if k = ''message'' then JStr m
      else lookup props k)"

text \<open>\<open>a || b\<close>\<close>

definition js_or :: "jsval \<Rightarrow> jsval \<Rightarrow> jsval" where
  "js_or a b = (if truthy a then a else b)"

text \<open>
  The \<open>catch\<close> block, lines 342 to 369: whatever the \<open>try\<close> block threw is replaced by the
  value thrown here.
\<close>

definition generateContent_catch :: "thrown \<Rightarrow> thrown" where
  "generateContent_catch error =
     (let m = message error in
      if m \<noteq> [] \<and> str_includes m ''response was blocked'' then
        (let response = err_prop error ''response'';
             blockReason = js_or (opt_get (opt_get response ''promptFeedback'') ''blockReason'')
                                 (JStr ''Safety settings'');
             safetyRatings = js_or (opt_get (opt_index0 (opt_get response ''candidates''))
                                            ''safetyRatings'')
                                   (JStr ''N/A'')
         in case template blockReason of
              Inl e \<Rightarrow> e
            | Inr reason \<Rightarrow>
                ApiError 400 (''Request blocked due to safety settings: '' @ reason)
                  (JObj [(''safetyRatings'', safetyRatings)]))
      else if m \<noteq> [] \<and> (str_includes m ''API key not valid''
                        \<or> err_prop error ''status'' = JStr ''PERMISSION_DENIED'') then
        ApiError 401 ''Authentication failed. Check your GOOGLE_AI_API_KEY.''
          (JObj [(''sdkError'', JStr m)])
      else if m \<noteq> [] \<and> str_includes m ''Quota exceeded'' then
        ApiError 429 ''API quota exceeded. Please check your usage limits.''
          (JObj [(''sdkError'', JStr m)])
      else
        ApiError 502 ''Error communicating with the Google AI service.''
          (JObj [(''sdkError'', JStr m)]))"

definition GeminiModel_generateContent ::
  "string option \<Rightarrow> string list \<Rightarrow> sdk \<Rightarrow> state \<Rightarrow> string \<Rightarrow> nat list option \<Rightarrow> string option
     \<Rightarrow> (thrown + outcome) \<times> state" where
  "GeminiModel_generateContent NODE_ENV keys backend st prompt imageBuffer imageMimeType =
     (case generateContent_try NODE_ENV keys backend (st\<lparr>model_calls := Suc (model_calls st)\<rparr>)
             prompt imageBuffer imageMimeType of
        (Inr result, st') \<Rightarrow> (Inr result, st')
      | (Inl error, st') \<Rightarrow> (Inl (generateContent_catch error), st'))"

section \<open>The error middleware: \<open>errorMiddleware\<close> of \<open>utils/errorHandler.js\<close>\<close>

record http_response =
  status :: nat
  body :: jsobj

definition errorMiddleware :: "string option \<Rightarrow> thrown \<Rightarrow> http_response" where
  "errorMiddleware NODE_ENV err =
     (let production = (NODE_ENV = Some ''production'');
          responseBody =
            [(''error'', JStr ''Internal Server Error''),
             (''message'', JStr (if production then ''An unexpected error occurred.''
                                 else message err))]
      in case err of
           ApiError statusCode m details \<Rightarrow>
             (let b1 = AList.update ''error'' (JStr m) responseBody;
                  b2 = AList.update ''message''
                         (js_or details (JStr (if production then ''See error field for details.''
                                               else m))) b1
              in \<lparr>status = statusCode,
                  body = (if truthy details
                          then AList.delete ''message'' (AList.update ''details'' details b2)
                          else b2)\<rparr>)
         | OtherError name m props \<Rightarrow>
             if name = ''SyntaxError'' \<and> lookup props ''type'' = JStr ''entity.parse.failed'' then
               \<lparr>status = 400,
                body = AList.update ''message''
                         (JStr ''The request body could not be parsed as valid JSON.'')
                         (AList.update ''error'' (JStr ''Bad Request: Malformed JSON'')
                            responseBody)\<rparr>
             else \<lparr>status = 500, body = responseBody\<rparr>)"

section \<open>The controller: \<open>GenerationController.generateContent\<close>\<close>

text \<open>
  Of the request the controller reads \<open>req.body.prompt\<close> (\<open>undefined\<close> when the field is
  missing) and \<open>req.file\<close>, the upload that the multer middleware left, if any.
\<close>

record upload =
  buffer :: "nat list"
  mimetype :: string

record request =
  prompt_field :: jsval
  imageFile :: "upload option"

text \<open>
  \<open>!prompt || typeof prompt !== 'string' || prompt.trim() === ''\<close>
  (\<open>src/controllers/generationController.js\<close>, line 19; \<open>src/unnamed/part_002\<close>, line 21).
\<close>

definition invalid_prompt :: "jsval \<Rightarrow> bool" where
  "invalid_prompt p =
     (\<not> truthy p \<or> (case p of JStr s \<Rightarrow> trim s = [] | _ \<Rightarrow> True))"

text \<open>
  Lines 43 to 46: outside production, the controller writes the property
  \<open>_raw_model_response_type\<close> into the \<open>data\<close> object that the classifier returned.
\<close>

definition tag_raw_type :: "string option \<Rightarrow> outcome \<Rightarrow> outcome" where
  "tag_raw_type NODE_ENV modelResponse =
     (if NODE_ENV \<noteq> Some ''production'' then
        modelResponse\<lparr>data := AList.update ''_raw_model_response_type''
                                  (JStr (type modelResponse)) (data modelResponse)\<rparr>
      else modelResponse)"

text \<open>\<open>modelResponse.data.error?.toLowerCase().includes('blocked')\<close>\<close>

definition mentions_blocked :: "jsval \<Rightarrow> thrown + bool" where
  "mentions_blocked e =
     (case e of
        JUndefined \<Rightarrow> Inr False
      | JNull \<Rightarrow> Inr False
      | JStr s \<Rightarrow> Inr (str_includes (toLowerCase s) ''blocked'')
      | _ \<Rightarrow> Inl (TypeError ''modelResponse.data.error?.toLowerCase is not a function''))"

text \<open>
  The \<open>switch\<close> of \<open>src/controllers/generationController.js\<close>, lines 49 to 71. The body is
  the value handed to \<open>res.json\<close>.
\<close>

definition present :: "outcome \<Rightarrow> thrown + http_response" where
  "present modelResponse =
     (if type modelResponse = ''image'' \<or> type modelResponse = ''text'' then
        Inr \<lparr>status = 200, body = data modelResponse\<rparr>
      else if type modelResponse = ''empty'' then
        Inr \<lparr>status = 200,
             body = [(''message'', js_or (lookup (data modelResponse) ''text'')
                                         (JStr ''No content generated.''))]\<rparr>
      else if type modelResponse = ''error'' then
        and_then (mentions_blocked (lookup (data modelResponse) ''error'')) (\<lambda>blocked.
          Inr \<lparr>status = (if blocked then 400 else 500),
               body = [(''error'', js_or (lookup (data modelResponse) ''error'')
                          (JStr ''An error occurred while processing the model response.'')),
                       (''details'', lookup (data modelResponse) ''details'')]\<rparr>)
      else Inl (ApiError 500 ''Received an unexpected response format from the AI model.'' JNull))"

text \<open>The \<open>switch\<close> of \<open>src/unnamed/part_002\<close>, lines 88 to 117.\<close>

definition present_part_002 :: "outcome \<Rightarrow> thrown + http_response" where
  "present_part_002 modelResponse =
     (if type modelResponse = ''image'' then
        Inr \<lparr>status = 200,
             body = [(''imageUrl'', lookup (data modelResponse) ''imageUrl''),
                     (''text'', js_or (lookup (data modelResponse) ''text'') JNull)]\<rparr>
      else if type modelResponse = ''text'' then
        Inr \<lparr>status = 200, body = [(''text'', lookup (data modelResponse) ''text'')]\<rparr>
      else if type modelResponse = ''empty'' then
        Inr \<lparr>status = 200,
             body = [(''message'', js_or (lookup (data modelResponse) ''text'')
                                         (JStr ''No content generated.''))]\<rparr>
      else if type modelResponse = ''error'' then
        and_then (mentions_blocked (lookup (data modelResponse) ''error'')) (\<lambda>blocked.
          Inr \<lparr>status = (if blocked then 400 else 500),
               body = [(''error'', js_or (lookup (data modelResponse) ''error'')
                          (JStr ''An error occurred while processing the model response.'')),
                       (''details'', lookup (data modelResponse) ''details'')]\<rparr>)
      else Inl (ApiError 500 ''Received an unexpected response format from the AI model.'' JNull))"

text \<open>
  The \<open>try\<close> block of the controller. A thrown value goes to \<open>next(error)\<close>, that is, to
  the error middleware.
\<close>

definition controller_try ::
  "string option \<Rightarrow> string list \<Rightarrow> sdk \<Rightarrow> state \<Rightarrow> request \<Rightarrow> (thrown + http_response) \<times> state" where
  "controller_try NODE_ENV keys backend st req =
     (if invalid_prompt (prompt_field req) then
        (Inl (ApiError 400 ''Text prompt (prompt) is required and cannot be empty.'' JNull), st)
      else
        (case GeminiModel_generateContent NODE_ENV keys backend st
                (trim (case prompt_field req of JStr s \<Rightarrow> s | _ \<Rightarrow> []))
                (map_option buffer (imageFile req)) (map_option mimetype (imageFile req)) of
           (Inl error, st') \<Rightarrow> (Inl error, st')
         | (Inr modelResponse, st') \<Rightarrow> (present (tag_raw_type NODE_ENV modelResponse), st')))"

definition GenerationController_generateContent ::
  "string option \<Rightarrow> string list \<Rightarrow> sdk \<Rightarrow> state \<Rightarrow> request \<Rightarrow> http_response \<times> state" where
  "GenerationController_generateContent NODE_ENV keys backend st req =
     (case controller_try NODE_ENV keys backend st req of
        (Inr response, st') \<Rightarrow> (response, st')
      | (Inl error, st') \<Rightarrow> (errorMiddleware NODE_ENV error, st'))"

text \<open>
  The controller of \<open>src/unnamed/part_002\<close>: the prompt is a menu key, replaced by the
  instruction it stands for. A key that is not on the menu leaves \<open>final_prompt\<close> undefined,
  and \<open>final_prompt.trim()\<close> throws.
\<close>

definition final_prompt_of :: "string \<Rightarrow> string option" where
  "final_prompt_of prompt =
    (if prompt = ''1'' then Some
       (''Add photorealistic, high-quality sunglasses to the person's face. The ''
        @ ''sunglasses should look natural and fit perfectly on their face structure. ''
        @ ''CRITICAL: Maintain 100% of the subject's original facial identity, ''
        @ ''features, skin texture, and distinctive characteristics. The sunglasses ''
        @ ''should complement their appearance without altering any underlying facial ''
        @ ''structure or details.'')
     else if prompt = ''20'' then Some
       (''Add elegant, photorealistic prescription glasses that perfectly match the ''
        @ ''person's face shape and style. The glasses should have clear lenses ''
        @ ''allowing full visibility of the eyes. CRITICAL: Preserve 100% of the ''
        @ ''subject's original facial identity, features, skin texture, and distinctive ''
        @ ''characteristics. Maintain all facial details visible through and around the ''
        @ ''glasses with perfect clarity.'')
     else if prompt = ''30'' then Some
       (''Add a stylish, realistic beanie hat to the person's head that fits ''
        @ ''naturally on their hair and head shape. CRITICAL: Ensure the original ''
        @ ''facial identity, expression, skin texture, and all facial features remain ''
        @ ''100% unchanged and highly detailed. The hat should complement their ''
        @ ''appearance without altering any aspect of their face or identity.'')
     else if prompt = ''40'' then Some
       (''Modify ONLY the person's expression to show an angry frown, with furrowed ''
        @ ''brows and slightly downturned mouth. CRITICAL: Preserve with absolute ''
        @ ''precision their complete facial identity, structure, unique features, skin ''
        @ ''texture, eye color, and all other distinctive characteristics. Change ''
        @ ''nothing but the minimal features needed for the expression change.'')
     else if prompt = ''2'' then Some
       (''Generate a photorealistic image reorienting the person's face to a perfect ''
        @ ''left three-quarter view (approximately 45 degrees toward their left ''
        @ ''shoulder). The head rotation must be distinctive and unmistakable. CRITICAL ''
        @ ''REQUIREMENT: Maintain 100% accuracy in reconstructing their original facial ''
        @ ''identity, unique proportions, features, skin texture, and all defining ''
        @ ''characteristics from this new angle. Create a natural perspective shift ''
        @ ''that appears as if the original photograph was actually captured from this ''
        @ ''angle, with all facial features coherently repositioned while preserving ''
        @ ''their exact appearance.'')
     else if prompt = ''3'' then Some
       (''Generate a photorealistic image reorienting the person's face to a perfect ''
        @ ''right three-quarter view (approximately 45 degrees toward their right ''
        @ ''shoulder). The head rotation must be distinctive and unmistakable. CRITICAL ''
        @ ''REQUIREMENT: Maintain 100% accuracy in reconstructing their original facial ''
        @ ''identity, unique proportions, features, skin texture, and all defining ''
        @ ''characteristics from this new angle. Create a natural perspective shift ''
        @ ''that appears as if the original photograph was actually captured from this ''
        @ ''angle, with all facial features coherently repositioned while preserving ''
        @ ''their exact appearance.'')
     else if prompt = ''4'' then Some
       (''Generate a photorealistic image reorienting the person to a complete left ''
        @ ''profile view (90 degrees, with their left side facing the camera). The ''
        @ ''profile must be precise and definitive. CRITICAL REQUIREMENT: Maintain 100% ''
        @ ''accuracy in reconstructing their original facial identity, unique ''
        @ ''proportions, and all defining characteristics from this side perspective. ''
        @ ''Ensure realistic rendering of typically profile-visible features like the ''
        @ ''nose bridge, jawline, and ear, while preserving their exact facial ''
        @ ''structure. The result must appear as if the photograph was actually taken ''
        @ ''directly from their left side, with perfect lighting consistency and detail ''
        @ ''preservation.'')
     else if prompt = ''5'' then Some
       (''Generate a photorealistic image reorienting the person to a complete right ''
        @ ''profile view (90 degrees, with their right side facing the camera). The ''
        @ ''profile must be precise and definitive. CRITICAL REQUIREMENT: Maintain 100% ''
        @ ''accuracy in reconstructing their original facial identity, unique ''
        @ ''proportions, and all defining characteristics from this side perspective. ''
        @ ''Ensure realistic rendering of typically profile-visible features like the ''
        @ ''nose bridge, jawline, and ear, while preserving their exact facial ''
        @ ''structure. The result must appear as if the photograph was actually taken ''
        @ ''directly from their right side, with perfect lighting consistency and ''
        @ ''detail preservation.'')
     else None)"

definition controller_try_part_002 ::
  "string option \<Rightarrow> string list \<Rightarrow> sdk \<Rightarrow> state \<Rightarrow> request \<Rightarrow> (thrown + http_response) \<times> state" where
  "controller_try_part_002 NODE_ENV keys backend st req =
     (if invalid_prompt (prompt_field req) then
        (Inl (ApiError 400 ''Text prompt (prompt) is required and cannot be empty.'' JNull), st)
      else
        (case final_prompt_of (case prompt_field req of JStr s \<Rightarrow> s | _ \<Rightarrow> []) of
           None \<Rightarrow> (Inl (cannot_read JUndefined ''trim''), st)
         | Some final_prompt \<Rightarrow>
            (case GeminiModel_generateContent NODE_ENV keys backend st (trim final_prompt)
                    (map_option buffer (imageFile req)) (map_option mimetype (imageFile req)) of
               (Inl error, st') \<Rightarrow> (Inl error, st')
             | (Inr modelResponse, st') \<Rightarrow>
                 (present_part_002 (tag_raw_type NODE_ENV modelResponse), st'))))"

definition GenerationController_generateContent_part_002 ::
  "string option \<Rightarrow> string list \<Rightarrow> sdk \<Rightarrow> state \<Rightarrow> request \<Rightarrow> http_response \<times> state" where
  "GenerationController_generateContent_part_002 NODE_ENV keys backend st req =
     (case controller_try_part_002 NODE_ENV keys backend st req of
        (Inr response, st') \<Rightarrow> (response, st')
      | (Inl error, st') \<Rightarrow> (errorMiddleware NODE_ENV error, st'))"

section \<open>Well-formed upstream results\<close>

text \<open>
  The shape the SDK documents and the classifier expects: a part is a text part
  \<open>{text: s}\<close> or an inline-data part \<open>{inlineData: {mimeType: m, data: d}}\<close> with base64
  data; a result with one candidate is
  \<open>{candidates: [{finishReason: r, content: {parts: [...]}}]}\<close>.
\<close>

datatype part =
    PText string
  | PInline string string

fun part_value :: "part \<Rightarrow> jsval" where
  "part_value (PText s) = JObj [(''text'', JStr s)]"
| "part_value (PInline m d) = JObj [(''inlineData'', JObj [(''mimeType'', JStr m), (''data'', JStr d)])]"

definition single_candidate :: "jsval \<Rightarrow> part list \<Rightarrow> jsval" where
  "single_candidate finishReason ps =
     JObj [(''candidates'',
            JArr [JObj [(''finishReason'', finishReason),
                        (''content'', JObj [(''parts'', JArr (map part_value ps))])]])]"

fun is_image :: "part \<Rightarrow> bool" where
  "is_image (PText s) = False"
| "is_image (PInline m d) = startsWith m ''image/''"

fun texts_of :: "part list \<Rightarrow> string list" where
  "texts_of [] = []"
| "texts_of (PText s # ps) = s # texts_of ps"
| "texts_of (PInline m d # ps) = texts_of ps"

text \<open>The caption of the loop-based classifier: \<open>null\<close> without a text part.\<close>

definition caption :: "part list \<Rightarrow> jsval" where
  "caption ps = (if texts_of ps = [] then JNull else JStr (concat (texts_of ps)))"

text \<open>The outcome types, and a result that, unless it is a throw, has one of them.\<close>

definition outcome_types :: "string set" where
  "outcome_types = {''image'', ''text'', ''empty'', ''error''}"

definition types_ok :: "thrown + outcome \<Rightarrow> bool" where
  "types_ok r = (case r of Inl e \<Rightarrow> True | Inr out \<Rightarrow> type out \<in> outcome_types)"

definition early_ok :: "thrown + (outcome + jsval) \<Rightarrow> bool" where
  "early_ok r = (case r of Inr (Inl out) \<Rightarrow> type out \<in> outcome_types | _ \<Rightarrow> True)"

text \<open>The last image part of a part list: its MIME type and its data.\<close>

fun last_image :: "part list \<Rightarrow> (string \<times> string) option" where
  "last_image [] = None"
| "last_image (p # ps) =
     (case last_image ps of
        Some found \<Rightarrow> Some found
      | None \<Rightarrow> (case p of
                   PInline m d \<Rightarrow> if startsWith m ''image/'' then Some (m, d) else None
                 | PText s \<Rightarrow> None))"

text \<open>
  An outcome of type \<open>error\<close> carries a non-empty message string; results and early results
  whose outcome, if any, does.
\<close>

definition error_ok :: "outcome \<Rightarrow> bool" where
  "error_ok out =
     (type out = ''error'' \<longrightarrow> (\<exists>m. m \<noteq> [] \<and> lookup (data out) ''error'' = JStr m))"

definition errors_ok :: "thrown + outcome \<Rightarrow> bool" where
  "errors_ok r = (case r of Inl e \<Rightarrow> True | Inr out \<Rightarrow> error_ok out)"

definition early_errors_ok :: "thrown + (outcome + jsval) \<Rightarrow> bool" where
  "early_errors_ok r = (case r of Inr (Inl out) \<Rightarrow> error_ok out | _ \<Rightarrow> True)"

section \<open>Evaluation rules\<close>

lemma and_then_simps [simp]:
  "and_then (Inl e) f = Inl e" "and_then (Inr x) f = f x"
  by (simp_all add: and_then_def)

lemma truthy_not_nullish: "truthy v \<Longrightarrow> \<not> nullish v"
  by (cases v) simp_all

section \<open>The classifier is total (C1)\<close>

lemma types_ok_and_then: "(\<And>x. types_ok (f x)) \<Longrightarrow> types_ok (and_then m f)"
  by (cases m) (simp_all add: types_ok_def)

lemma types_ok_if: "types_ok a \<Longrightarrow> types_ok b \<Longrightarrow> types_ok (if c then a else b)"
  by simp

lemma types_ok_Inr: "type out \<in> outcome_types \<Longrightarrow> types_ok (Inr out)"
  by (simp add: types_ok_def)

lemma types_ok_scan_result: "types_ok (scan_result parts acc)"
  unfolding scan_result_def
  by (cases acc) (auto intro!: types_ok_and_then types_ok_Inr simp: outcome_types_def)

lemma early_ok_and_then: "(\<And>x. early_ok (f x)) \<Longrightarrow> early_ok (and_then m f)"
  by (cases m) (simp_all add: early_ok_def)

lemma early_ok_if: "early_ok a \<Longrightarrow> early_ok b \<Longrightarrow> early_ok (if c then a else b)"
  by simp

lemma early_ok_Inl: "type out \<in> outcome_types \<Longrightarrow> early_ok (Inr (Inl out))"
  by (simp add: early_ok_def)

lemma early_ok_Inr: "early_ok (Inr (Inr parts))"
  by (simp add: early_ok_def)

lemma early_ok_before_parts: "early_ok (before_parts r)"
  unfolding before_parts_def Let_def
  by (intro early_ok_and_then early_ok_if early_ok_Inl early_ok_Inr)
     (simp_all add: outcome_types_def)

lemma types_ok_try: "types_ok (processResponse_try r)"
proof (cases "before_parts r")
  case (Inl e)
  then show ?thesis by (simp add: processResponse_try_def types_ok_def)
next
  case (Inr decided)
  show ?thesis
  proof (cases decided)
    case (Inl out)
    with Inr early_ok_before_parts [of r] show ?thesis
      by (simp add: processResponse_try_def types_ok_def early_ok_def)
  next
    case (Inr parts)
    with \<open>before_parts r = Inr decided\<close> show ?thesis
      by (auto simp: processResponse_try_def intro!: types_ok_and_then types_ok_scan_result)
  qed
qed

text \<open>
  C1. For every value handed to it and every environment, \<open>processResponse\<close> returns an
  outcome whose type is \<open>image\<close>, \<open>text\<close>, \<open>empty\<close> or \<open>error\<close>. It cannot throw: whatever
  the \<open>try\<close> block throws (\<open>Inl\<close>) is turned by the \<open>catch\<close> block into an \<open>error\<close>
  outcome whose message is \<open>Failed to process the API response: \<close> followed by the
  message of the exception.
\<close>

theorem processResponse_total:
  "type (processResponse env r) \<in> {''image'', ''text'', ''empty'', ''error''} \<and>
   (\<forall>e. processResponse_try r = Inl e \<longrightarrow>
      processResponse env r =
        \<lparr>type = ''error'',
         data = [(''error'', JStr (''Failed to process the API response: '' @ message e)),
                 (''rawResponse'', if env = Some ''development'' then r else JUndefined)]\<rparr>)"
proof -
  have "types_ok (processResponse_try r)" by (rule types_ok_try)
  then show ?thesis
    by (cases "processResponse_try r")
       (simp_all add: processResponse_def processResponse_catch_def types_ok_def outcome_types_def)
qed

lemma try_null_part:
  "processResponse_try
     (JObj [(''candidates'', JArr [JObj [(''content'', JObj [(''parts'', JArr [JNull])])]])])
     = Inl (cannot_read JNull ''inlineData'')"
  by (simp add: processResponse_try_def before_parts_def get_def get_index0_def lookup_def
        opt_get_def iterate_def is_image_part_def)

theorem processResponse_total_witness:
  "processResponse_try
     (JObj [(''candidates'', JArr [JObj [(''content'', JObj [(''parts'', JArr [JNull])])]])])
     = Inl (cannot_read JNull ''inlineData'') \<and>
   processResponse None
     (JObj [(''candidates'', JArr [JObj [(''content'', JObj [(''parts'', JArr [JNull])])]])])
     = \<lparr>type = ''error'',
        data = [(''error'', JStr (''Failed to process the API response: ''
                   @ ''Cannot read properties of null (reading 'inlineData')'')),
                (''rawResponse'', JUndefined)]\<rparr>"
  using processResponse_total [of None
      "JObj [(''candidates'', JArr [JObj [(''content'', JObj [(''parts'', JArr [JNull])])]])]"]
    try_null_part
  by (simp add: cannot_read_def TypeError_def)

section \<open>A safety stop is an error, whatever the parts (C4)\<close>

text \<open>
  C4. For every response that is present (truthy), carries no prompt block reason, and
  whose candidate list starts with a candidate of finish reason \<open>SAFETY\<close>, the classifier
  returns the \<open>error\<close> outcome \<open>Content generation stopped due to safety concerns.\<close> with the
  candidate's safety ratings as details. Nothing else of the candidate enters the result:
  its content and parts are not read.
\<close>

theorem safety_stop:
  assumes "truthy r"
    and "\<not> truthy (opt_get (read_prop r ''promptFeedback'') ''blockReason'')"
    and "read_prop r ''candidates'' = JArr (candidate # others)"
    and "\<not> nullish candidate"
    and "read_prop candidate ''finishReason'' = JStr ''SAFETY''"
  shows "processResponse env r =
     \<lparr>type = ''error'',
      data = [(''error'', JStr ''Content generation stopped due to safety concerns.''),
              (''details'', JObj [(''safetyRatings'', read_prop candidate ''safetyRatings'')])]\<rparr>"
proof -
  from assms(1) have "\<not> nullish r" by (rule truthy_not_nullish)
  with assms have "before_parts r = Inr (Inl
     \<lparr>type = ''error'',
      data = [(''error'', JStr ''Content generation stopped due to safety concerns.''),
              (''details'', JObj [(''safetyRatings'', read_prop candidate ''safetyRatings'')])]\<rparr>)"
    by (simp add: before_parts_def get_def get_index0_def template_def)
  then show ?thesis
    by (simp add: processResponse_def processResponse_try_def)
qed

theorem safety_stop_witness:
  "processResponse None
     (single_candidate (JStr ''SAFETY'') [PText ''A'', PInline ''image/png'' ''QUJD''])
    = \<lparr>type = ''error'',
      data = [(''error'', JStr ''Content generation stopped due to safety concerns.''),
              (''details'', JObj [(''safetyRatings'', JUndefined)])]\<rparr>"
  using safety_stop [of
      "single_candidate (JStr ''SAFETY'') [PText ''A'', PInline ''image/png'' ''QUJD'']"
      "JObj [(''finishReason'', JStr ''SAFETY''),
             (''content'', JObj [(''parts'',
                JArr (map part_value [PText ''A'', PInline ''image/png'' ''QUJD'']))])]"
      "[]" None]
  by (simp add: single_candidate_def lookup_def opt_get_def)

section \<open>No candidates (C8)\<close>

text \<open>
  C8. For every response that is present and carries no prompt block reason, when the
  candidate list is missing (falsy) or has length 0, the classifier reads the finish reason
  through \<open>candidates?.[0]?.finishReason\<close>. If it is present and not \<open>STOP\<close>, the outcome is
  the text \<open>Generation stopped due to: <reason>. No content available.\<close>; otherwise it is
  the empty outcome \<open>The model did not return any content.\<close> With an absent or empty
  candidate array no finish reason can be read, and the outcome is the empty one.
\<close>

theorem no_candidates_rule:
  assumes "truthy r"
    and "\<not> truthy (opt_get (read_prop r ''promptFeedback'') ''blockReason'')"
    and "\<not> truthy (read_prop r ''candidates'')
         \<or> read_prop (read_prop r ''candidates'') ''length'' = JNum 0"
    and "finishReason = opt_get (opt_index0 (read_prop r ''candidates'')) ''finishReason''"
  shows "(\<forall>reason. truthy finishReason \<and> finishReason \<noteq> JStr ''STOP''
                   \<and> to_string finishReason = Some reason \<longrightarrow>
            processResponse env r =
              \<lparr>type = ''text'',
               data = [(''text'', JStr (''Generation stopped due to: '' @ reason
                                        @ ''. No content available.''))]\<rparr>)
       \<and> (\<not> truthy finishReason \<or> finishReason = JStr ''STOP'' \<longrightarrow>
            processResponse env r =
              \<lparr>type = ''empty'',
               data = [(''text'', JStr ''The model did not return any content.'')]\<rparr>)
       \<and> (read_prop r ''candidates'' = JUndefined \<or> read_prop r ''candidates'' = JArr [] \<longrightarrow>
            processResponse env r =
              \<lparr>type = ''empty'',
               data = [(''text'', JStr ''The model did not return any content.'')]\<rparr>)"
proof -
  from assms(1) have nn: "\<not> nullish r" by (rule truthy_not_nullish)
  have nc: "\<not> nullish (read_prop r ''candidates'') \<or> \<not> truthy (read_prop r ''candidates'')"
    by (cases "read_prop r ''candidates''") simp_all
  have head: "before_parts r =
     (if truthy finishReason \<and> finishReason \<noteq> JStr ''STOP'' then
        and_then (template finishReason) (\<lambda>reason.
          Inr (Inl \<lparr>type = ''text'',
               data = [(''text'', JStr (''Generation stopped due to: '' @ reason
                                        @ ''. No content available.''))]\<rparr>))
      else Inr (Inl \<lparr>type = ''empty'',
                     data = [(''text'', JStr ''The model did not return any content.'')]\<rparr>))"
    using assms nn nc by (auto simp: before_parts_def get_def Let_def)
  have undef: "read_prop r ''candidates'' = JUndefined \<or> read_prop r ''candidates'' = JArr []
      \<Longrightarrow> \<not> truthy finishReason"
    using assms(4) by (auto simp: opt_get_def opt_index0_def)
  show ?thesis
    using undef by (auto simp: head processResponse_def processResponse_try_def template_def)
qed

theorem no_candidates_rule_witness:
  "processResponse None
      (JObj [(''candidates'',
              JObj [(''length'', JNum 0), (''0'', JObj [(''finishReason'', JStr ''MAX_TOKENS'')])])])
     = \<lparr>type = ''text'',
        data = [(''text'', JStr ''Generation stopped due to: MAX_TOKENS. No content available.'')]\<rparr>
   \<and> processResponse None (JObj [(''candidates'', JArr [])])
     = \<lparr>type = ''empty'', data = [(''text'', JStr ''The model did not return any content.'')]\<rparr>"
  using no_candidates_rule [of
      "JObj [(''candidates'',
             JObj [(''length'', JNum 0), (''0'', JObj [(''finishReason'', JStr ''MAX_TOKENS'')])])]"
      "JStr ''MAX_TOKENS''" None]
    no_candidates_rule [of "JObj [(''candidates'', JArr [])]" JUndefined None]
  by (simp add: lookup_def opt_get_def opt_index0_def)

section \<open>Round-robin rotation (C2)\<close>

lemma getNextGenAI_in_range:
  "c < length keys \<Longrightarrow> getNextGenAI keys c = (Some (keys ! c), Suc c mod length keys)"
  by (simp add: getNextGenAI_def)

lemma dispatch_nth:
  "keys \<noteq> [] \<Longrightarrow> c < length keys \<Longrightarrow> k < M \<Longrightarrow>
     dispatch keys c M ! k = ((c + k) mod length keys, Some (keys ! ((c + k) mod length keys)))"
proof (induction M arbitrary: c k)
  case 0
  then show ?case by simp
next
  case (Suc M)
  have next_lt: "Suc c mod length keys < length keys"
    using Suc.prems(1) by simp
  show ?case
  proof (cases k)
    case 0
    with Suc.prems show ?thesis by (simp add: getNextGenAI_in_range)
  next
    case (Suc j)
    with Suc.prems have "j < M" by simp
    from Suc.IH [OF Suc.prems(1) next_lt this]
    have "dispatch keys (Suc c mod length keys) M ! j =
        ((Suc c mod length keys + j) mod length keys,
         Some (keys ! ((Suc c mod length keys + j) mod length keys)))" .
    moreover have "(Suc c mod length keys + j) mod length keys = (c + Suc j) mod length keys"
      by (simp add: mod_add_left_eq)
    ultimately show ?thesis
      using Suc.prems \<open>k = Suc j\<close> by (simp add: getNextGenAI_in_range)
  qed
qed

lemma cursor_after_in_range:
  "keys \<noteq> [] \<Longrightarrow> c < length keys \<Longrightarrow> cursor_after keys c M = (c + M) mod length keys"
proof (induction M arbitrary: c)
  case 0
  then show ?case by simp
next
  case (Suc M)
  have "Suc c mod length keys < length keys" using Suc.prems(1) by simp
  from Suc.IH [OF Suc.prems(1) this] show ?case
    using Suc.prems by (simp add: getNextGenAI_in_range mod_add_left_eq)
qed

lemma phase:
  fixes c i M N :: nat
  assumes "c < N" "i < N"
  shows "(c + M) mod N = i \<longleftrightarrow> (i + (N - c)) mod N = M mod N"
proof
  assume "(c + M) mod N = i"
  then have "(i + (N - c)) mod N = ((c + M) mod N + (N - c)) mod N" by simp
  also have "\<dots> = (c + M + (N - c)) mod N" by (rule mod_add_left_eq)
  also have "\<dots> = (M + N) mod N" using assms by (simp add: algebra_simps)
  finally show "(i + (N - c)) mod N = M mod N" by simp
next
  assume h: "(i + (N - c)) mod N = M mod N"
  have "(c + M) mod N = (c + M mod N) mod N" by (rule mod_add_right_eq [symmetric])
  also have "\<dots> = (c + (i + (N - c)) mod N) mod N" using h by simp
  also have "\<dots> = (c + (i + (N - c))) mod N" by (rule mod_add_right_eq)
  also have "\<dots> = (i + N) mod N" using assms by (simp add: algebra_simps)
  finally show "(c + M) mod N = i" using assms by simp
qed

lemma dispatch_Suc_in_range:
  "c < length keys \<Longrightarrow>
   dispatch keys c (Suc m) = (c, Some (keys ! c)) # dispatch keys (Suc c mod length keys) m"
  by (simp add: getNextGenAI_in_range)

lemma times_used_Cons:
  "times_used i (entry # log) = (if fst entry = i then 1 else 0) + times_used i log"
  by (simp add: times_used_def)

lemma times_used_Suc:
  "keys \<noteq> [] \<Longrightarrow> c < length keys \<Longrightarrow>
   times_used i (dispatch keys c (Suc M)) =
     times_used i (dispatch keys c M) + (if (c + M) mod length keys = i then 1 else 0)"
proof (induction M arbitrary: c)
  case 0
  then show ?case by (simp add: times_used_def getNextGenAI_in_range)
next
  case (Suc M)
  have lt: "Suc c mod length keys < length keys" using Suc.prems(1) by simp
  have eq: "(Suc c mod length keys + M) mod length keys = (c + Suc M) mod length keys"
    by (simp add: mod_add_left_eq)
  have "times_used i (dispatch keys c (Suc (Suc M))) =
      (if c = i then 1 else 0) + times_used i (dispatch keys (Suc c mod length keys) (Suc M))"
    by (simp only: dispatch_Suc_in_range [OF Suc.prems(2)] times_used_Cons fst_conv)
  also have "\<dots> = (if c = i then 1 else 0) + (times_used i (dispatch keys (Suc c mod length keys) M)
      + (if (c + Suc M) mod length keys = i then 1 else 0))"
    by (simp only: Suc.IH [OF Suc.prems(1) lt] eq)
  also have "\<dots> = times_used i (dispatch keys c (Suc M))
      + (if (c + Suc M) mod length keys = i then 1 else 0)"
    by (simp only: dispatch_Suc_in_range [OF Suc.prems(2)] times_used_Cons fst_conv add.assoc)
  finally show ?case .
qed

lemma times_used_formula:
  assumes "keys \<noteq> []" "c < length keys" "i < length keys"
  shows "times_used i (dispatch keys c M) =
     M div length keys + (if (i + (length keys - c)) mod length keys < M mod length keys then 1 else 0)"
proof (induction M)
  case 0
  show ?case by (simp add: times_used_def)
next
  case (Suc M)
  define N where "N = length keys"
  define r where "r = (i + (N - c)) mod N"
  define a where "a = M mod N"
  define T where "T = times_used i (dispatch keys c M)"
  have N: "0 < N" using assms(1) by (simp add: N_def)
  have r: "r < N" using N by (simp add: r_def)
  have ph: "(c + M) mod N = i \<longleftrightarrow> r = a"
    unfolding r_def a_def using assms(2,3) unfolding N_def [symmetric] by (rule phase)
  have IH: "T = M div N + (if r < a then 1 else 0)"
    using Suc.IH by (simp only: T_def r_def a_def N_def)
  have step: "times_used i (dispatch keys c (Suc M)) = T + (if r = a then 1 else 0)"
    using times_used_Suc [OF assms(1,2), of i M] ph by (simp only: T_def N_def)
  have goal: "T + (if r = a then 1 else 0) = Suc M div N + (if r < Suc M mod N then 1 else 0)"
  proof (cases "Suc a = N")
    case True
    then have "Suc M mod N = 0" and "Suc M div N = Suc (M div N)"
      by (simp_all add: mod_Suc div_Suc a_def)
    moreover have "r < a \<or> r = a" using r True by linarith
    ultimately show ?thesis using IH by auto
  next
    case False
    then have "Suc M mod N = Suc a" and "Suc M div N = M div N"
      by (simp_all add: mod_Suc div_Suc a_def)
    then show ?thesis using IH by auto
  qed
  show ?case
    using step goal by (simp only: r_def N_def)
qed

lemma ceil_div:
  fixes M N :: nat
  assumes "0 < M mod N" "0 < N"
  shows "(M + N - 1) div N = Suc (M div N)"
proof -
  have "M = M mod N + M div N * N" by simp
  then have "M + N - 1 = M mod N + M div N * N + N - 1" by simp
  also have "\<dots> = (M mod N - 1) + Suc (M div N) * N" using assms by simp
  finally have "(M + N - 1) div N = ((M mod N - 1) + Suc (M div N) * N) div N" by simp
  also have "\<dots> = Suc (M div N) + (M mod N - 1) div N"
    by (rule div_mult_self1) (use assms in simp)
  also have "(M mod N - 1) div N = 0"
    using assms by (simp add: less_imp_diff_less)
  finally show ?thesis by simp
qed

text \<open>
  C2. With a non-empty pool of \<open>N\<close> keys: the \<open>k\<close>-th of \<open>M\<close> sequential calls that start
  from cursor 0 reads cursor \<open>k mod N\<close> and returns the key at that index; from a cursor in
  range the cursor is in range after any number of calls; over any \<open>M\<close> sequential calls
  from a cursor in range each index is used \<open>M div N\<close> (the floor) or
  \<open>(M + N - 1) div N\<close> (the ceiling) times; and with the two keys of the code the calls
  return key 1, key 2, key 1, key 2, and so on.
\<close>

theorem round_robin:
  assumes "keys \<noteq> []"
  shows "(\<forall>k<M. dispatch keys 0 M ! k
              = (k mod length keys, Some (keys ! (k mod length keys))))
       \<and> (\<forall>c<length keys. cursor_after keys c M < length keys)
       \<and> (\<forall>c<length keys. \<forall>i<length keys.
             times_used i (dispatch keys c M) = M div length keys
           \<or> times_used i (dispatch keys c M) = (M + length keys - 1) div length keys)
       \<and> (\<forall>k<M. snd (dispatch (apiKeys key1 key2) 0 M ! k)
              = Some (if even k then key1 else key2))"
proof (intro conjI allI impI)
  have N: "0 < length keys" using assms by simp
  fix k assume "k < M"
  with dispatch_nth [OF assms N, of k M]
  show "dispatch keys 0 M ! k = (k mod length keys, Some (keys ! (k mod length keys)))"
    by simp
next
  fix c assume "c < length keys"
  with assms show "cursor_after keys c M < length keys"
    by (simp add: cursor_after_in_range)
next
  fix c i assume c: "c < length keys" and i: "i < length keys"
  let ?N = "length keys"
  have N: "0 < ?N" using assms by simp
  show "times_used i (dispatch keys c M) = M div ?N
      \<or> times_used i (dispatch keys c M) = (M + ?N - 1) div ?N"
  proof (cases "(i + (?N - c)) mod ?N < M mod ?N")
    case True
    then have "0 < M mod ?N" by simp
    from ceil_div [OF this N] True show ?thesis
      by (simp add: times_used_formula [OF assms c i])
  next
    case False
    then show ?thesis by (simp add: times_used_formula [OF assms c i])
  qed
next
  fix k assume "k < M"
  have len: "length (apiKeys key1 key2) = 2" by (simp add: apiKeys_def)
  have ne: "apiKeys key1 key2 \<noteq> []" by (simp add: apiKeys_def)
  have pos: "0 < length (apiKeys key1 key2)" by (simp add: apiKeys_def)
  have "dispatch (apiKeys key1 key2) 0 M ! k
      = ((0 + k) mod length (apiKeys key1 key2),
         Some (apiKeys key1 key2 ! ((0 + k) mod length (apiKeys key1 key2))))"
    using ne pos \<open>k < M\<close> by (rule dispatch_nth)
  then have "snd (dispatch (apiKeys key1 key2) 0 M ! k) = Some (apiKeys key1 key2 ! (k mod 2))"
    by (simp only: len add_0 snd_conv)
  moreover have "apiKeys key1 key2 ! (k mod 2) = (if even k then key1 else key2)"
  proof (cases "even k")
    case True
    then have "k mod 2 = 0" by presburger
    with True show ?thesis by (simp add: apiKeys_def)
  next
    case False
    then have "k mod 2 = 1" by presburger
    with False show ?thesis by (simp add: apiKeys_def)
  qed
  ultimately show "snd (dispatch (apiKeys key1 key2) 0 M ! k) = Some (if even k then key1 else key2)"
    by simp
qed

theorem round_robin_witness:
  "dispatch [''key1'', ''key2''] 0 5 ! 3 = (1, Some ''key2'')
   \<and> cursor_after [''key1'', ''key2''] 1 5 < 2
   \<and> (times_used 0 (dispatch [''key1'', ''key2''] 0 5) = 2
        \<or> times_used 0 (dispatch [''key1'', ''key2''] 0 5) = 3)
   \<and> snd (dispatch (apiKeys ''key1'' ''key2'') 0 5 ! 4) = Some ''key1''
   \<and> dispatch [''key1'', ''key2''] 0 5
        = [(0, Some ''key1''), (1, Some ''key2''), (0, Some ''key1''), (1, Some ''key2''),
           (0, Some ''key1'')]"
proof -
  let ?K = "[''key1'', ''key2'']"
  have ne: "?K \<noteq> []" by simp
  have len: "length ?K = 2" by simp
  note rr = round_robin [OF ne, of 5 "''key1''" "''key2''", unfolded len]
  from rr have "\<forall>k<5. dispatch ?K 0 5 ! k = (k mod 2, Some (?K ! (k mod 2)))"
    by (rule conjunct1)
  then have "dispatch ?K 0 5 ! 3 = (3 mod 2, Some (?K ! (3 mod 2)))"
    by (rule allE [where x = 3]) (simp del: dispatch.simps)
  moreover have "(3::nat) mod 2 = 1" by simp
  moreover have "?K ! 1 = ''key2''" by simp
  ultimately have a: "dispatch ?K 0 5 ! 3 = (1, Some ''key2'')"
    by (simp only:)
  from rr have "\<forall>c<2. cursor_after ?K c 5 < 2"
    by (rule conjunct1 [OF conjunct2])
  then have b: "cursor_after ?K 1 5 < 2"
    by (rule allE [where x = 1]) (simp del: cursor_after.simps)
  from rr have "\<forall>c<2. \<forall>i<2. times_used i (dispatch ?K c 5) = 5 div 2
           \<or> times_used i (dispatch ?K c 5) = (5 + 2 - 1) div 2"
    by (rule conjunct1 [OF conjunct2 [OF conjunct2]])
  then have "times_used 0 (dispatch ?K 0 5) = 5 div 2
           \<or> times_used 0 (dispatch ?K 0 5) = (5 + 2 - 1) div 2"
    by (simp del: dispatch.simps)
  moreover have "(5::nat) div 2 = 2" and "((5::nat) + 2 - 1) div 2 = 3" by simp_all
  ultimately have c: "times_used 0 (dispatch ?K 0 5) = 2 \<or> times_used 0 (dispatch ?K 0 5) = 3"
    by (simp only:)
  from rr have "\<forall>k<5. snd (dispatch (apiKeys ''key1'' ''key2'') 0 5 ! k)
              = Some (if even k then ''key1'' else ''key2'')"
    by (rule conjunct2 [OF conjunct2 [OF conjunct2]])
  then have d: "snd (dispatch (apiKeys ''key1'' ''key2'') 0 5 ! 4) = Some ''key1''"
    by (rule allE [where x = 4]) (simp del: dispatch.simps)
  have e: "dispatch ?K 0 5
        = [(0, Some ''key1''), (1, Some ''key2''), (0, Some ''key1''), (1, Some ''key2''),
           (0, Some ''key1'')]"
    by (simp add: getNextGenAI_def eval_nat_numeral)
  from a b c d e show ?thesis by (intro conjI)
qed

section \<open>Image precedence and caption (C3)\<close>

lemma scan_parts_step:
  "scan_parts (part_value p # rest) (t, d, m) =
     scan_parts rest
       (case p of
          PText s \<Rightarrow> (Some ((case t of None \<Rightarrow> [] | Some a \<Rightarrow> a) @ s), d, m)
        | PInline m' d' \<Rightarrow> if startsWith m' ''image/'' then (t, JStr d', JStr m') else (t, d, m))"
  by (cases p) (simp_all add: is_image_part_def get_def lookup_def startsWith_call_def)

lemma scan_parts_typed:
  "scan_parts (map part_value ps) (t, d, m) =
     Inr (if texts_of ps = [] then t
          else Some ((case t of None \<Rightarrow> [] | Some a \<Rightarrow> a) @ concat (texts_of ps)),
          case last_image ps of None \<Rightarrow> d | Some (m', d') \<Rightarrow> JStr d',
          case last_image ps of None \<Rightarrow> m | Some (m', d') \<Rightarrow> JStr m')"
proof (induction ps arbitrary: t d m)
  case Nil
  show ?case by simp
next
  case (Cons p ps)
  show ?case
    by (cases p) (simp_all add: scan_parts_step Cons.IH del: scan_parts.simps part_value.simps
        split: option.splits)
qed

lemma before_parts_single_candidate:
  assumes "\<not> truthy fr \<or> fr = JStr ''STOP''" and "ps \<noteq> []"
  shows "before_parts (single_candidate fr ps) = Inr (Inr (JArr (map part_value ps)))"
  using assms
  by (auto simp: before_parts_def single_candidate_def get_def get_index0_def lookup_def opt_get_def)

lemma loop_typed:
  assumes "\<not> truthy fr \<or> fr = JStr ''STOP''" and "ps \<noteq> []"
  shows "processResponse_try (single_candidate fr ps) =
     scan_result (JArr (map part_value ps))
       (if texts_of ps = [] then None else Some (concat (texts_of ps)),
        case last_image ps of None \<Rightarrow> JNull | Some (m', d') \<Rightarrow> JStr d',
        case last_image ps of None \<Rightarrow> JNull | Some (m', d') \<Rightarrow> JStr m')"
  by (simp add: processResponse_try_def before_parts_single_candidate [OF assms] iterate_def
        scan_parts_typed)

text \<open>
  C3, as amended. Take a response with one candidate whose finish reason is absent or
  \<open>STOP\<close>. For the parts \<open>[text a, image (m, d), text b]\<close>, where \<open>m\<close> starts with
  \<open>image/\<close> and the base64 data \<open>d\<close> is not empty, the outcome is of type \<open>image\<close>, its
  \<open>imageUrl\<close> is \<open>data:<m>;base64,<d>\<close> and its caption is \<open>a\<close> followed by \<open>b\<close>. For any
  part list the last image part wins: if its data is not empty, the outcome is that image,
  captioned with all text parts concatenated in order, without separator (\<open>null\<close> when
  there is no text part). If the data of the last image part is empty, the test
  \<open>if (imageData)\<close> fails and the outcome is not an image: it is the concatenated text when
  that is not empty, and the empty outcome otherwise.
\<close>

theorem image_precedence:
  assumes "\<not> truthy fr \<or> fr = JStr ''STOP''"
  shows "(startsWith m ''image/'' \<and> d \<noteq> [] \<longrightarrow>
            processResponse env (single_candidate fr [PText a, PInline m d, PText b]) =
              \<lparr>type = ''image'',
               data = [(''imageUrl'', JStr (''data:'' @ m @ '';base64,'' @ d)),
                       (''text'', JStr (a @ b))]\<rparr>)
       \<and> (\<forall>ps m d. last_image ps = Some (m, d) \<and> d \<noteq> [] \<longrightarrow>
            processResponse env (single_candidate fr ps) =
              \<lparr>type = ''image'',
               data = [(''imageUrl'', JStr (''data:'' @ m @ '';base64,'' @ d)),
                       (''text'', caption ps)]\<rparr>)
       \<and> (\<forall>ps m. last_image ps = Some (m, []) \<longrightarrow>
            processResponse env (single_candidate fr ps) =
              (if concat (texts_of ps) \<noteq> [] then
                 \<lparr>type = ''text'', data = [(''text'', JStr (concat (texts_of ps)))]\<rparr>
               else
                 \<lparr>type = ''empty'',
                  data = [(''text'', JStr ''Model response did not contain usable text or image data.''),
                          (''rawParts'', JArr (map part_value ps))]\<rparr>))"
proof (intro conjI allI impI)
  assume h: "startsWith m ''image/'' \<and> d \<noteq> []"
  have ne: "[PText a, PInline m d, PText b] \<noteq> []" by simp
  show "processResponse env (single_candidate fr [PText a, PInline m d, PText b]) =
              \<lparr>type = ''image'',
               data = [(''imageUrl'', JStr (''data:'' @ m @ '';base64,'' @ d)),
                       (''text'', JStr (a @ b))]\<rparr>"
    using h by (simp add: processResponse_def loop_typed [OF assms ne] scan_result_def
        template_def text_value_def)
next
  fix ps m d assume h: "last_image ps = Some (m, d) \<and> d \<noteq> []"
  then have ne: "ps \<noteq> []" by auto
  show "processResponse env (single_candidate fr ps) =
              \<lparr>type = ''image'',
               data = [(''imageUrl'', JStr (''data:'' @ m @ '';base64,'' @ d)),
                       (''text'', caption ps)]\<rparr>"
    using h by (simp add: processResponse_def loop_typed [OF assms ne] scan_result_def
        template_def text_value_def caption_def)
next
  fix ps m assume h: "last_image ps = Some (m, [])"
  then have ne: "ps \<noteq> []" by auto
  show "processResponse env (single_candidate fr ps) =
              (if concat (texts_of ps) \<noteq> [] then
                 \<lparr>type = ''text'', data = [(''text'', JStr (concat (texts_of ps)))]\<rparr>
               else
                 \<lparr>type = ''empty'',
                  data = [(''text'', JStr ''Model response did not contain usable text or image data.''),
                          (''rawParts'', JArr (map part_value ps))]\<rparr>)"
    using h by (auto simp: processResponse_def loop_typed [OF assms ne] scan_result_def
        template_def text_value_def)
qed

theorem image_precedence_witness:
  "processResponse None (single_candidate (JStr ''STOP'')
       [PText ''A'', PInline ''image/png'' ''QUJD'', PText ''B''])
     = \<lparr>type = ''image'',
        data = [(''imageUrl'', JStr ''data:image/png;base64,QUJD''), (''text'', JStr ''AB'')]\<rparr>
   \<and> processResponse None (single_candidate JUndefined
       [PInline ''image/png'' ''Zmlyc3Q='', PText ''x'', PInline ''image/jpeg'' ''bGFzdA==''])
     = \<lparr>type = ''image'',
        data = [(''imageUrl'', JStr ''data:image/jpeg;base64,bGFzdA==''), (''text'', JStr ''x'')]\<rparr>
   \<and> processResponse None (single_candidate (JStr ''STOP'')
       [PInline ''image/png'' ''QUJD'', PInline ''image/png'' ''''])
     = \<lparr>type = ''empty'',
        data = [(''text'', JStr ''Model response did not contain usable text or image data.''),
                (''rawParts'', JArr (map part_value [PInline ''image/png'' ''QUJD'', PInline ''image/png'' '''']))]\<rparr>"
proof -
  have stop: "\<not> truthy (JStr ''STOP'') \<or> JStr ''STOP'' = JStr ''STOP''" by simp
  have absent: "\<not> truthy JUndefined \<or> JUndefined = JStr ''STOP''" by simp
  note a = image_precedence [OF stop, of "''image/png''" "''QUJD''" None "''A''" "''B''", THEN conjunct1]
  note b = image_precedence [OF absent, of "''image/png''" "''QUJD''" None "''A''" "''B''",
      THEN conjunct2, THEN conjunct1, rule_format,
      of "[PInline ''image/png'' ''Zmlyc3Q='', PText ''x'', PInline ''image/jpeg'' ''bGFzdA=='']"
         "''image/jpeg''" "''bGFzdA==''"]
  note c = image_precedence [OF stop, of "''image/png''" "''QUJD''" None "''A''" "''B''",
      THEN conjunct2, THEN conjunct2, rule_format,
      of "[PInline ''image/png'' ''QUJD'', PInline ''image/png'' '''']" "''image/png''"]
  from a have a': "processResponse None (single_candidate (JStr ''STOP'')
       [PText ''A'', PInline ''image/png'' ''QUJD'', PText ''B''])
     = \<lparr>type = ''image'',
        data = [(''imageUrl'', JStr ''data:image/png;base64,QUJD''), (''text'', JStr ''AB'')]\<rparr>"
    by (simp add: startsWith_def)
  from b have b': "processResponse None (single_candidate JUndefined
       [PInline ''image/png'' ''Zmlyc3Q='', PText ''x'', PInline ''image/jpeg'' ''bGFzdA==''])
     = \<lparr>type = ''image'',
        data = [(''imageUrl'', JStr ''data:image/jpeg;base64,bGFzdA==''), (''text'', JStr ''x'')]\<rparr>"
    by (simp add: startsWith_def caption_def)
  from c have c': "processResponse None (single_candidate (JStr ''STOP'')
       [PInline ''image/png'' ''QUJD'', PInline ''image/png'' ''''])
     = \<lparr>type = ''empty'',
        data = [(''text'', JStr ''Model response did not contain usable text or image data.''),
                (''rawParts'', JArr (map part_value [PInline ''image/png'' ''QUJD'', PInline ''image/png'' '''']))]\<rparr>"
    by (simp add: startsWith_def)
  from a' b' c' show ?thesis by (intro conjI)
qed

text \<open>
  Without the condition on the data the statement fails: for an image part with empty
  data the outcome is the text.
\<close>

theorem image_precedence_counterexample:
  "type (processResponse None (single_candidate (JStr ''STOP'')
       [PText ''A'', PInline ''image/png'' '''', PText ''B''])) \<noteq> ''image''
   \<and> processResponse None (single_candidate (JStr ''STOP'')
       [PText ''A'', PInline ''image/png'' '''', PText ''B''])
     = \<lparr>type = ''text'', data = [(''text'', JStr ''AB'')]\<rparr>"
proof -
  have stop: "\<not> truthy (JStr ''STOP'') \<or> JStr ''STOP'' = JStr ''STOP''" by simp
  have ne: "[PText ''A'', PInline ''image/png'' '''', PText ''B''] \<noteq> []" by simp
  have "processResponse None (single_candidate (JStr ''STOP'')
       [PText ''A'', PInline ''image/png'' '''', PText ''B''])
     = \<lparr>type = ''text'', data = [(''text'', JStr ''AB'')]\<rparr>"
    by (simp add: processResponse_def loop_typed [OF stop ne] scan_result_def startsWith_def
        text_value_def)
  then show ?thesis by simp
qed

section \<open>The two classifiers (C10)\<close>

lemma is_image_part_value: "is_image_part (part_value p) = Inr (is_image p)"
  by (cases p) (simp_all add: is_image_part_def get_def lookup_def startsWith_call_def)

lemma last_image_None_Cons:
  "last_image (p # ps) = None \<longleftrightarrow> \<not> is_image p \<and> last_image ps = None"
  by (cases p) (simp_all split: option.splits)

lemma find_image_none:
  "last_image ps = None \<Longrightarrow> find_image (map part_value ps) = Inr JUndefined"
proof (induction ps)
  case Nil
  show ?case by simp
next
  case (Cons p ps)
  from Cons.prems have "\<not> is_image p" and "last_image ps = None"
    by (simp_all add: last_image_None_Cons del: last_image.simps)
  with Cons.IH show ?case
    by (simp add: is_image_part_value del: part_value.simps)
qed

lemma get_text_part_value:
  "get (part_value p) ''text'' = Inr (case p of PText s \<Rightarrow> JStr s | PInline m d \<Rightarrow> JUndefined)"
  by (cases p) (simp_all add: get_def lookup_def)

lemma filter_text_typed: "filter_text (map part_value ps) = Inr (texts_of ps)"
proof (induction ps)
  case Nil
  show ?case by simp
next
  case (Cons p ps)
  then show ?case
    by (cases p) (simp_all add: get_text_part_value del: part_value.simps)
qed

lemma join_newline_short: "length ts \<le> 1 \<Longrightarrow> join_newline ts = concat ts"
  by (cases ts rule: join_newline.cases) simp_all

text \<open>
  C10, as amended. The loop-based classifier of \<open>src/app.js\<close> and the find-based one of
  \<open>src/unnamed/part_003\<close> return equal outcomes whenever the outcome is decided before the
  parts are looked at (no response, prompt block, no candidates, abnormal finish reason,
  no parts, or an exception up to there), and whenever the parts are well-formed text and
  inline-data parts with no image part and at most one text part. With two or more text
  parts the find-based classifier joins them with newlines, and for an image it returns no
  caption property, so the outcomes differ there.
\<close>

theorem classifiers_agree:
  "((\<forall>parts. before_parts r \<noteq> Inr (Inr parts)) \<longrightarrow>
       processResponse env r = processResponse_find env r)
   \<and> (before_parts r = Inr (Inr (JArr (map part_value ps)))
        \<and> last_image ps = None \<and> length (texts_of ps) \<le> 1 \<longrightarrow>
       processResponse env r = processResponse_find env r)"
proof (intro conjI impI)
  assume early: "\<forall>parts. before_parts r \<noteq> Inr (Inr parts)"
  show "processResponse env r = processResponse_find env r"
  proof (cases "before_parts r")
    case (Inl e)
    then show ?thesis
      by (simp add: processResponse_def processResponse_find_def processResponse_try_def
          processResponse_find_try_def)
  next
    case (Inr decided)
    with early obtain out where "decided = Inl out" by (cases decided) auto
    with Inr show ?thesis
      by (simp add: processResponse_def processResponse_find_def processResponse_try_def
          processResponse_find_try_def)
  qed
next
  assume h: "before_parts r = Inr (Inr (JArr (map part_value ps)))
        \<and> last_image ps = None \<and> length (texts_of ps) \<le> 1"
  then have bp: "before_parts r = Inr (Inr (JArr (map part_value ps)))"
    and li: "last_image ps = None" and len: "length (texts_of ps) \<le> 1" by simp_all
  have loop: "processResponse_try r =
      scan_result (JArr (map part_value ps))
        (if texts_of ps = [] then None else Some (concat (texts_of ps)), JNull, JNull)"
    by (simp add: processResponse_try_def bp iterate_def scan_parts_typed li)
  have find: "processResponse_find_try r =
      (if concat (texts_of ps) \<noteq> [] then
         Inr \<lparr>type = ''text'', data = [(''text'', JStr (concat (texts_of ps)))]\<rparr>
       else
         Inr \<lparr>type = ''empty'',
              data = [(''text'', JStr ''Model response did not contain usable text or image data.''),
                      (''rawParts'', JArr (map part_value ps))]\<rparr>)"
    by (simp add: processResponse_find_try_def bp array_method_def find_image_none [OF li]
        filter_text_typed join_newline_short [OF len] Let_def)
  show "processResponse env r = processResponse_find env r"
    by (auto simp: processResponse_def processResponse_find_def loop find scan_result_def
        text_value_def)
qed

theorem classifiers_agree_witness:
  "processResponse None JNull = processResponse_find None JNull
   \<and> processResponse None (single_candidate (JStr ''STOP'') [PText ''hello''])
       = processResponse_find None (single_candidate (JStr ''STOP'') [PText ''hello''])
   \<and> processResponse None (single_candidate (JStr ''STOP'') [PText ''hello''])
       = \<lparr>type = ''text'', data = [(''text'', JStr ''hello'')]\<rparr>"
proof -
  have stop: "\<not> truthy (JStr ''STOP'') \<or> JStr ''STOP'' = JStr ''STOP''" by simp
  have "\<forall>parts. before_parts JNull \<noteq> Inr (Inr parts)"
    by (simp add: before_parts_def)
  with classifiers_agree [where r = JNull and env = None and ps = "[]"]
  have a: "processResponse None JNull = processResponse_find None JNull" by blast
  have bp: "before_parts (single_candidate (JStr ''STOP'') [PText ''hello''])
      = Inr (Inr (JArr (map part_value [PText ''hello''])))"
    by (rule before_parts_single_candidate [OF stop]) simp
  have "last_image [PText ''hello''] = None" and "length (texts_of [PText ''hello'']) \<le> 1"
    by simp_all
  with bp classifiers_agree [where r = "single_candidate (JStr ''STOP'') [PText ''hello'']"
      and ps = "[PText ''hello'']" and env = None]
  have b: "processResponse None (single_candidate (JStr ''STOP'') [PText ''hello''])
       = processResponse_find None (single_candidate (JStr ''STOP'') [PText ''hello''])"
    by blast
  have c: "processResponse None (single_candidate (JStr ''STOP'') [PText ''hello''])
       = \<lparr>type = ''text'', data = [(''text'', JStr ''hello'')]\<rparr>"
    by (simp add: processResponse_def loop_typed [OF stop] scan_result_def text_value_def)
  from a b c show ?thesis by (intro conjI)
qed

text \<open>
  The two classifiers differ on two text parts (\<open>AB\<close> against \<open>A\<close>, newline, \<open>B\<close>) and on
  a single image part (a \<open>text: null\<close> property against none).
\<close>

theorem classifiers_agree_counterexample:
  "processResponse None (single_candidate (JStr ''STOP'') [PText ''A'', PText ''B''])
     \<noteq> processResponse_find None (single_candidate (JStr ''STOP'') [PText ''A'', PText ''B''])
   \<and> processResponse None (single_candidate (JStr ''STOP'') [PText ''A'', PText ''B''])
     = \<lparr>type = ''text'', data = [(''text'', JStr ''AB'')]\<rparr>
   \<and> processResponse_find None (single_candidate (JStr ''STOP'') [PText ''A'', PText ''B''])
     = \<lparr>type = ''text'', data = [(''text'', JStr ''A\<newline>B'')]\<rparr>
   \<and> processResponse None (single_candidate (JStr ''STOP'') [PInline ''image/png'' ''QUJD''])
     = \<lparr>type = ''image'',
        data = [(''imageUrl'', JStr ''data:image/png;base64,QUJD''), (''text'', JNull)]\<rparr>
   \<and> processResponse_find None (single_candidate (JStr ''STOP'') [PInline ''image/png'' ''QUJD''])
     = \<lparr>type = ''image'', data = [(''imageUrl'', JStr ''data:image/png;base64,QUJD'')]\<rparr>"
proof -
  have stop: "\<not> truthy (JStr ''STOP'') \<or> JStr ''STOP'' = JStr ''STOP''" by simp
  have bp1: "before_parts (single_candidate (JStr ''STOP'') [PText ''A'', PText ''B''])
      = Inr (Inr (JArr (map part_value [PText ''A'', PText ''B''])))"
    by (rule before_parts_single_candidate [OF stop]) simp
  have bp2: "before_parts (single_candidate (JStr ''STOP'') [PInline ''image/png'' ''QUJD''])
      = Inr (Inr (JArr (map part_value [PInline ''image/png'' ''QUJD''])))"
    by (rule before_parts_single_candidate [OF stop]) simp
  have l1: "processResponse None (single_candidate (JStr ''STOP'') [PText ''A'', PText ''B''])
     = \<lparr>type = ''text'', data = [(''text'', JStr ''AB'')]\<rparr>"
    by (simp add: processResponse_def loop_typed [OF stop] scan_result_def text_value_def)
  have f1: "processResponse_find None (single_candidate (JStr ''STOP'') [PText ''A'', PText ''B''])
     = \<lparr>type = ''text'', data = [(''text'', JStr ''A\<newline>B'')]\<rparr>"
    by (simp add: processResponse_find_def processResponse_find_try_def bp1 array_method_def
        is_image_part_def get_def lookup_def)
  have l2: "processResponse None (single_candidate (JStr ''STOP'') [PInline ''image/png'' ''QUJD''])
     = \<lparr>type = ''image'',
        data = [(''imageUrl'', JStr ''data:image/png;base64,QUJD''), (''text'', JNull)]\<rparr>"
    by (simp add: processResponse_def loop_typed [OF stop] scan_result_def text_value_def
        startsWith_def template_def)
  have f2: "processResponse_find None (single_candidate (JStr ''STOP'') [PInline ''image/png'' ''QUJD''])
     = \<lparr>type = ''image'', data = [(''imageUrl'', JStr ''data:image/png;base64,QUJD'')]\<rparr>"
    by (simp add: processResponse_find_def processResponse_find_try_def bp2 array_method_def
        is_image_part_def get_def lookup_def startsWith_call_def startsWith_def template_def)
  have ne: "processResponse None (single_candidate (JStr ''STOP'') [PText ''A'', PText ''B''])
     \<noteq> processResponse_find None (single_candidate (JStr ''STOP'') [PText ''A'', PText ''B''])"
    by (simp add: l1 f1)
  from ne l1 f1 l2 f2 show ?thesis by (intro conjI)
qed

section \<open>Presentation of errors (C6)\<close>

lemma lookup_update:
  "lookup (AList.update k v al) k' = (if k' = k then v else lookup al k')"
  by (simp add: lookup_def update_conv')

lemma errors_ok_and_then: "(\<And>x. errors_ok (f x)) \<Longrightarrow> errors_ok (and_then m f)"
  by (cases m) (simp_all add: errors_ok_def)

lemma errors_ok_if: "errors_ok a \<Longrightarrow> errors_ok b \<Longrightarrow> errors_ok (if c then a else b)"
  by simp

lemma errors_ok_Inr: "error_ok out \<Longrightarrow> errors_ok (Inr out)"
  by (simp add: errors_ok_def)

lemma errors_ok_scan_result: "errors_ok (scan_result parts acc)"
  unfolding scan_result_def
  by (cases acc) (auto intro!: errors_ok_and_then errors_ok_Inr simp: error_ok_def)

lemma early_errors_ok_and_then:
  "(\<And>x. early_errors_ok (f x)) \<Longrightarrow> early_errors_ok (and_then m f)"
  by (cases m) (simp_all add: early_errors_ok_def)

lemma early_errors_ok_if:
  "early_errors_ok a \<Longrightarrow> early_errors_ok b \<Longrightarrow> early_errors_ok (if c then a else b)"
  by simp

lemma early_errors_ok_Inl: "error_ok out \<Longrightarrow> early_errors_ok (Inr (Inl out))"
  by (simp add: early_errors_ok_def)

lemma early_errors_ok_Inr: "early_errors_ok (Inr (Inr parts))"
  by (simp add: early_errors_ok_def)

lemma early_errors_ok_before_parts: "early_errors_ok (before_parts r)"
  unfolding before_parts_def Let_def
  by (intro early_errors_ok_and_then early_errors_ok_if early_errors_ok_Inl early_errors_ok_Inr)
     (simp_all add: error_ok_def lookup_def)

lemma errors_ok_try: "errors_ok (processResponse_try r)"
proof (cases "before_parts r")
  case (Inl e)
  then show ?thesis by (simp add: processResponse_try_def errors_ok_def)
next
  case (Inr decided)
  show ?thesis
  proof (cases decided)
    case (Inl out)
    with Inr early_errors_ok_before_parts [of r] show ?thesis
      by (simp add: processResponse_try_def errors_ok_def early_errors_ok_def)
  next
    case (Inr parts)
    with \<open>before_parts r = Inr decided\<close> show ?thesis
      by (auto simp: processResponse_try_def intro!: errors_ok_and_then errors_ok_scan_result)
  qed
qed

lemma error_ok_processResponse: "error_ok (processResponse env r)"
  using errors_ok_try [of r]
  by (cases "processResponse_try r")
     (simp_all add: processResponse_def processResponse_catch_def errors_ok_def error_ok_def
        lookup_def)

lemma present_error:
  assumes "type out = ''error''" and "lookup (data out) ''error'' = JStr m" and "m \<noteq> []"
  shows "present (tag_raw_type env out) =
           Inr \<lparr>status = (if str_includes (toLowerCase m) ''blocked'' then 400 else 500),
                body = [(''error'', JStr m), (''details'', lookup (data out) ''details'')]\<rparr>"
    and "present_part_002 (tag_raw_type env out) =
           Inr \<lparr>status = (if str_includes (toLowerCase m) ''blocked'' then 400 else 500),
                body = [(''error'', JStr m), (''details'', lookup (data out) ''details'')]\<rparr>"
  using assms
  by (simp_all add: present_def present_part_002_def tag_raw_type_def lookup_update
      mentions_blocked_def js_or_def)

lemma errorMiddleware_ApiError_status: "status (errorMiddleware env (ApiError sc m d)) = sc"
  by (simp add: errorMiddleware_def Let_def)

lemma controller_passes_error:
  assumes "\<not> invalid_prompt (prompt_field req)"
    and "fst (GeminiModel_generateContent env keys backend st
                (trim (case prompt_field req of JStr s \<Rightarrow> s | _ \<Rightarrow> []))
                (map_option buffer (imageFile req)) (map_option mimetype (imageFile req)))
           = Inl (ApiError sc m d)"
  shows "status (fst (GenerationController_generateContent env keys backend st req)) = sc"
  using assms
  by (auto simp: GenerationController_generateContent_def controller_try_def
      errorMiddleware_ApiError_status split: prod.splits sum.splits)

lemma try_result:
  assumes "fst (generateContent_try env keys backend st p b m) = Inr out"
  shows "\<exists>r. out = processResponse env r"
  using assms
  by (auto simp: generateContent_try_def send_request_def and_then_def Let_def
      split: prod.splits sum.splits option.splits if_splits)

lemma model_layer_result:
  assumes "fst (GeminiModel_generateContent env keys backend st p b m) = Inr out"
  shows "\<exists>r. out = processResponse env r"
proof -
  obtain res st' where t: "generateContent_try env keys backend
      (st\<lparr>model_calls := Suc (model_calls st)\<rparr>) p b m = (res, st')"
    by (cases "generateContent_try env keys backend
      (st\<lparr>model_calls := Suc (model_calls st)\<rparr>) p b m") auto
  with assms have "res = Inr out"
    by (cases res) (simp_all add: GeminiModel_generateContent_def)
  with t try_result [of env keys backend "st\<lparr>model_calls := Suc (model_calls st)\<rparr>" p b m out]
  show ?thesis by simp
qed

lemma controller_presents:
  assumes "\<not> invalid_prompt (prompt_field req)"
    and "fst (GeminiModel_generateContent env keys backend st
                (trim (case prompt_field req of JStr s \<Rightarrow> s | _ \<Rightarrow> []))
                (map_option buffer (imageFile req)) (map_option mimetype (imageFile req)))
           = Inr out"
    and "present (tag_raw_type env out) = Inr response"
  shows "fst (GenerationController_generateContent env keys backend st req) = response"
  using assms
  by (auto simp: GenerationController_generateContent_def controller_try_def
      split: prod.splits sum.splits)

lemma controller_presents_part_002:
  assumes "\<not> invalid_prompt (prompt_field req)"
    and "final_prompt_of (case prompt_field req of JStr s \<Rightarrow> s | _ \<Rightarrow> []) = Some final_prompt"
    and "fst (GeminiModel_generateContent env keys backend st (trim final_prompt)
                (map_option buffer (imageFile req)) (map_option mimetype (imageFile req)))
           = Inr out"
    and "present_part_002 (tag_raw_type env out) = Inr response"
  shows "fst (GenerationController_generateContent_part_002 env keys backend st req) = response"
  using assms
  by (auto simp: GenerationController_generateContent_part_002_def controller_try_part_002_def
      split: prod.splits sum.splits)

lemma controller_passes_error_part_002:
  assumes "\<not> invalid_prompt (prompt_field req)"
    and "final_prompt_of (case prompt_field req of JStr s \<Rightarrow> s | _ \<Rightarrow> []) = Some final_prompt"
    and "fst (GeminiModel_generateContent env keys backend st (trim final_prompt)
                (map_option buffer (imageFile req)) (map_option mimetype (imageFile req)))
           = Inl (ApiError sc m d)"
  shows "status (fst (GenerationController_generateContent_part_002 env keys backend st req)) = sc"
  using assms
  by (auto simp: GenerationController_generateContent_part_002_def controller_try_part_002_def
      errorMiddleware_ApiError_status split: prod.splits sum.splits)

lemma controller_error_outcome:
  assumes "\<not> invalid_prompt (prompt_field req)"
    and "fst (GeminiModel_generateContent env keys backend st
                (trim (case prompt_field req of JStr s \<Rightarrow> s | _ \<Rightarrow> []))
                (map_option buffer (imageFile req)) (map_option mimetype (imageFile req)))
           = Inr out"
    and "type out = ''error''"
  shows "\<exists>m. lookup (data out) ''error'' = JStr m
           \<and> fst (GenerationController_generateContent env keys backend st req) =
               \<lparr>status = (if str_includes (toLowerCase m) ''blocked'' then 400 else 500),
                body = [(''error'', JStr m), (''details'', lookup (data out) ''details'')]\<rparr>"
proof -
  from model_layer_result [OF assms(2)] obtain r where "out = processResponse env r" ..
  with error_ok_processResponse [of env r] assms(3)
  obtain m where m: "m \<noteq> []" "lookup (data out) ''error'' = JStr m"
    by (auto simp: error_ok_def)
  from controller_presents [OF assms(1,2) present_error(1) [OF assms(3) m(2) m(1)]] m(2)
  show ?thesis by blast
qed

lemma controller_error_outcome_part_002:
  assumes "\<not> invalid_prompt (prompt_field req)"
    and "final_prompt_of (case prompt_field req of JStr s \<Rightarrow> s | _ \<Rightarrow> []) = Some final_prompt"
    and "fst (GeminiModel_generateContent env keys backend st (trim final_prompt)
                (map_option buffer (imageFile req)) (map_option mimetype (imageFile req)))
           = Inr out"
    and "type out = ''error''"
  shows "\<exists>m. lookup (data out) ''error'' = JStr m
           \<and> fst (GenerationController_generateContent_part_002 env keys backend st req) =
               \<lparr>status = (if str_includes (toLowerCase m) ''blocked'' then 400 else 500),
                body = [(''error'', JStr m), (''details'', lookup (data out) ''details'')]\<rparr>"
proof -
  from model_layer_result [OF assms(3)] obtain r where "out = processResponse env r" ..
  with error_ok_processResponse [of env r] assms(4)
  obtain m where m: "m \<noteq> []" "lookup (data out) ''error'' = JStr m"
    by (auto simp: error_ok_def)
  from controller_presents_part_002 [OF assms(1,2,3) present_error(2) [OF assms(4) m(2) m(1)]] m(2)
  show ?thesis by blast
qed

text \<open>
  C6. Whenever the model layer returns an outcome of type \<open>error\<close>, the outcome carries a
  message string, and the controller (either revision) answers with status 400 when the
  lower-cased message contains \<open>blocked\<close> and with 500 otherwise, and with the body
  \<open>{error: message, details}\<close>; this is so for every error outcome the classifier can
  return. When the model layer throws an \<open>ApiError\<close> instead of returning an outcome, the
  response has the status code of that error; and the \<open>catch\<close> block of the model layer
  maps an invalid API key or a denied permission to 401, an exceeded quota to 429, and
  every other failure to 502.
\<close>

theorem error_presentation:
  "(type (processResponse env r) = ''error'' \<longrightarrow>
      (\<exists>m. lookup (data (processResponse env r)) ''error'' = JStr m
         \<and> present (tag_raw_type env (processResponse env r)) =
             Inr \<lparr>status = (if str_includes (toLowerCase m) ''blocked'' then 400 else 500),
                  body = [(''error'', JStr m),
                          (''details'', lookup (data (processResponse env r)) ''details'')]\<rparr>
         \<and> present_part_002 (tag_raw_type env (processResponse env r)) =
             Inr \<lparr>status = (if str_includes (toLowerCase m) ''blocked'' then 400 else 500),
                  body = [(''error'', JStr m),
                          (''details'', lookup (data (processResponse env r)) ''details'')]\<rparr>))
   \<and> (\<not> invalid_prompt (prompt_field req)
        \<and> fst (GeminiModel_generateContent env keys backend st
                (trim (case prompt_field req of JStr s \<Rightarrow> s | _ \<Rightarrow> []))
                (map_option buffer (imageFile req)) (map_option mimetype (imageFile req)))
           = Inr out
        \<and> type out = ''error'' \<longrightarrow>
      (\<exists>m. lookup (data out) ''error'' = JStr m
         \<and> fst (GenerationController_generateContent env keys backend st req) =
             \<lparr>status = (if str_includes (toLowerCase m) ''blocked'' then 400 else 500),
              body = [(''error'', JStr m), (''details'', lookup (data out) ''details'')]\<rparr>))
   \<and> (\<not> invalid_prompt (prompt_field req)
        \<and> final_prompt_of (case prompt_field req of JStr s \<Rightarrow> s | _ \<Rightarrow> []) = Some final_prompt
        \<and> fst (GeminiModel_generateContent env keys backend st (trim final_prompt)
                (map_option buffer (imageFile req)) (map_option mimetype (imageFile req)))
           = Inr out
        \<and> type out = ''error'' \<longrightarrow>
      (\<exists>m. lookup (data out) ''error'' = JStr m
         \<and> fst (GenerationController_generateContent_part_002 env keys backend st req) =
             \<lparr>status = (if str_includes (toLowerCase m) ''blocked'' then 400 else 500),
              body = [(''error'', JStr m), (''details'', lookup (data out) ''details'')]\<rparr>))
   \<and> (\<not> invalid_prompt (prompt_field req)
        \<and> fst (GeminiModel_generateContent env keys backend st
                (trim (case prompt_field req of JStr s \<Rightarrow> s | _ \<Rightarrow> []))
                (map_option buffer (imageFile req)) (map_option mimetype (imageFile req)))
           = Inl (ApiError sc msg d) \<longrightarrow>
      status (fst (GenerationController_generateContent env keys backend st req)) = sc)
   \<and> (\<not> invalid_prompt (prompt_field req)
        \<and> final_prompt_of (case prompt_field req of JStr s \<Rightarrow> s | _ \<Rightarrow> []) = Some final_prompt
        \<and> fst (GeminiModel_generateContent env keys backend st (trim final_prompt)
                (map_option buffer (imageFile req)) (map_option mimetype (imageFile req)))
           = Inl (ApiError sc msg d) \<longrightarrow>
      status (fst (GenerationController_generateContent_part_002 env keys backend st req)) = sc)
   \<and> (message e \<noteq> [] \<and> \<not> str_includes (message e) ''response was blocked''
        \<and> (str_includes (message e) ''API key not valid''
             \<or> err_prop e ''status'' = JStr ''PERMISSION_DENIED'') \<longrightarrow>
      generateContent_catch e =
        ApiError 401 ''Authentication failed. Check your GOOGLE_AI_API_KEY.''
          (JObj [(''sdkError'', JStr (message e))]))
   \<and> (\<not> str_includes (message e) ''response was blocked''
        \<and> \<not> str_includes (message e) ''API key not valid''
        \<and> err_prop e ''status'' \<noteq> JStr ''PERMISSION_DENIED''
        \<and> str_includes (message e) ''Quota exceeded'' \<longrightarrow>
      generateContent_catch e =
        ApiError 429 ''API quota exceeded. Please check your usage limits.''
          (JObj [(''sdkError'', JStr (message e))]))
   \<and> (\<not> str_includes (message e) ''response was blocked''
        \<and> \<not> str_includes (message e) ''API key not valid''
        \<and> err_prop e ''status'' \<noteq> JStr ''PERMISSION_DENIED''
        \<and> \<not> str_includes (message e) ''Quota exceeded'' \<longrightarrow>
      generateContent_catch e =
        ApiError 502 ''Error communicating with the Google AI service.''
          (JObj [(''sdkError'', JStr (message e))]))"
proof (intro conjI impI)
  assume t: "type (processResponse env r) = ''error''"
  with error_ok_processResponse [of env r]
  obtain m where m: "m \<noteq> []" "lookup (data (processResponse env r)) ''error'' = JStr m"
    by (auto simp: error_ok_def)
  from present_error [OF t m(2) m(1)] m(2)
  show "\<exists>m. lookup (data (processResponse env r)) ''error'' = JStr m
         \<and> present (tag_raw_type env (processResponse env r)) =
             Inr \<lparr>status = (if str_includes (toLowerCase m) ''blocked'' then 400 else 500),
                  body = [(''error'', JStr m),
                          (''details'', lookup (data (processResponse env r)) ''details'')]\<rparr>
         \<and> present_part_002 (tag_raw_type env (processResponse env r)) =
             Inr \<lparr>status = (if str_includes (toLowerCase m) ''blocked'' then 400 else 500),
                  body = [(''error'', JStr m),
                          (''details'', lookup (data (processResponse env r)) ''details'')]\<rparr>"
    by blast
next
  assume "\<not> invalid_prompt (prompt_field req)
        \<and> fst (GeminiModel_generateContent env keys backend st
                (trim (case prompt_field req of JStr s \<Rightarrow> s | _ \<Rightarrow> []))
                (map_option buffer (imageFile req)) (map_option mimetype (imageFile req)))
           = Inr out
        \<and> type out = ''error''"
  then show "\<exists>m. lookup (data out) ''error'' = JStr m
         \<and> fst (GenerationController_generateContent env keys backend st req) =
             \<lparr>status = (if str_includes (toLowerCase m) ''blocked'' then 400 else 500),
              body = [(''error'', JStr m), (''details'', lookup (data out) ''details'')]\<rparr>"
    using controller_error_outcome by blast
next
  assume "\<not> invalid_prompt (prompt_field req)
        \<and> final_prompt_of (case prompt_field req of JStr s \<Rightarrow> s | _ \<Rightarrow> []) = Some final_prompt
        \<and> fst (GeminiModel_generateContent env keys backend st (trim final_prompt)
                (map_option buffer (imageFile req)) (map_option mimetype (imageFile req)))
           = Inr out
        \<and> type out = ''error''"
  then show "\<exists>m. lookup (data out) ''error'' = JStr m
         \<and> fst (GenerationController_generateContent_part_002 env keys backend st req) =
             \<lparr>status = (if str_includes (toLowerCase m) ''blocked'' then 400 else 500),
              body = [(''error'', JStr m), (''details'', lookup (data out) ''details'')]\<rparr>"
    using controller_error_outcome_part_002 by blast
next
  assume "\<not> invalid_prompt (prompt_field req)
        \<and> fst (GeminiModel_generateContent env keys backend st
                (trim (case prompt_field req of JStr s \<Rightarrow> s | _ \<Rightarrow> []))
                (map_option buffer (imageFile req)) (map_option mimetype (imageFile req)))
           = Inl (ApiError sc msg d)"
  then show "status (fst (GenerationController_generateContent env keys backend st req)) = sc"
    using controller_passes_error by blast
next
  assume "\<not> invalid_prompt (prompt_field req)
        \<and> final_prompt_of (case prompt_field req of JStr s \<Rightarrow> s | _ \<Rightarrow> []) = Some final_prompt
        \<and> fst (GeminiModel_generateContent env keys backend st (trim final_prompt)
                (map_option buffer (imageFile req)) (map_option mimetype (imageFile req)))
           = Inl (ApiError sc msg d)"
  then show "status (fst (GenerationController_generateContent_part_002 env keys backend st req)) = sc"
    using controller_passes_error_part_002 by blast
next
  assume "message e \<noteq> [] \<and> \<not> str_includes (message e) ''response was blocked''
        \<and> (str_includes (message e) ''API key not valid''
             \<or> err_prop e ''status'' = JStr ''PERMISSION_DENIED'')"
  then show "generateContent_catch e =
        ApiError 401 ''Authentication failed. Check your GOOGLE_AI_API_KEY.''
          (JObj [(''sdkError'', JStr (message e))])"
    by (auto simp: generateContent_catch_def Let_def)
next
  assume "\<not> str_includes (message e) ''response was blocked''
        \<and> \<not> str_includes (message e) ''API key not valid''
        \<and> err_prop e ''status'' \<noteq> JStr ''PERMISSION_DENIED''
        \<and> str_includes (message e) ''Quota exceeded''"
  moreover from this have "message e \<noteq> []" by (cases "message e") auto
  ultimately show "generateContent_catch e =
        ApiError 429 ''API quota exceeded. Please check your usage limits.''
          (JObj [(''sdkError'', JStr (message e))])"
    by (simp add: generateContent_catch_def Let_def)
next
  assume "\<not> str_includes (message e) ''response was blocked''
        \<and> \<not> str_includes (message e) ''API key not valid''
        \<and> err_prop e ''status'' \<noteq> JStr ''PERMISSION_DENIED''
        \<and> \<not> str_includes (message e) ''Quota exceeded''"
  then show "generateContent_catch e =
        ApiError 502 ''Error communicating with the Google AI service.''
          (JObj [(''sdkError'', JStr (message e))])"
    by (simp add: generateContent_catch_def Let_def)
qed

lemma processResponse_blocked:
  "processResponse None (JObj [(''promptFeedback'', JObj [(''blockReason'', JStr ''SAFETY'')])])
     = \<lparr>type = ''error'',
        data = [(''error'', JStr ''Content generation blocked due to: SAFETY''),
                (''details'', JObj [(''safetyRatings'', JUndefined)])]\<rparr>"
  by (simp add: processResponse_def processResponse_try_def before_parts_def get_def lookup_def
      opt_get_def opt_index0_def blockReason_text_def template_def)

lemma processResponse_null:
  "processResponse None JNull
     = \<lparr>type = ''error'', data = [(''error'', JStr ''Received no response object from API.'')]\<rparr>"
  by (simp add: processResponse_def processResponse_try_def before_parts_def)

lemma processResponse_safety:
  "processResponse (Some ''production'') (JObj [(''candidates'', JArr [JObj [(''finishReason'', JStr ''SAFETY'')]])])
     = \<lparr>type = ''error'',
        data = [(''error'', JStr ''Content generation stopped due to safety concerns.''),
                (''details'', JObj [(''safetyRatings'', JUndefined)])]\<rparr>"
  by (simp add: processResponse_def processResponse_try_def before_parts_def get_def lookup_def
      opt_get_def get_index0_def template_def)

lemma model_layer_constant_backend:
  "get result ''response'' = Inr r \<Longrightarrow>
   fst (GeminiModel_generateContent env keys (\<lambda>key parts. Inr result) st p None None)
     = Inr (processResponse env r)"
  by (simp add: GeminiModel_generateContent_def generateContent_try_def send_request_def
      split: prod.splits)

theorem error_presentation_witness:
  "present (tag_raw_type None
       (processResponse None (JObj [(''promptFeedback'', JObj [(''blockReason'', JStr ''SAFETY'')])])))
     = Inr \<lparr>status = 400,
            body = [(''error'', JStr ''Content generation blocked due to: SAFETY''),
                    (''details'', JObj [(''safetyRatings'', JUndefined)])]\<rparr>
   \<and> present (tag_raw_type None (processResponse None JNull))
     = Inr \<lparr>status = 500,
            body = [(''error'', JStr ''Received no response object from API.''),
                    (''details'', JUndefined)]\<rparr>
   \<and> fst (GenerationController_generateContent None [''key1'', ''key2'']
         (\<lambda>key parts. Inr (JObj [(''response'',
              JObj [(''promptFeedback'', JObj [(''blockReason'', JStr ''SAFETY'')])])]))
         \<lparr>nextKeyIndex = 0, model_calls = 0, upstream_calls = []\<rparr>
         \<lparr>prompt_field = JStr ''hi'', imageFile = None\<rparr>)
     = \<lparr>status = 400,
        body = [(''error'', JStr ''Content generation blocked due to: SAFETY''),
                (''details'', JObj [(''safetyRatings'', JUndefined)])]\<rparr>
   \<and> fst (GenerationController_generateContent_part_002 (Some ''production'') [''key1'', ''key2'']
         (\<lambda>key parts. Inr (JObj [(''response'',
              JObj [(''candidates'', JArr [JObj [(''finishReason'', JStr ''SAFETY'')]])])]))
         \<lparr>nextKeyIndex = 0, model_calls = 0, upstream_calls = []\<rparr>
         \<lparr>prompt_field = JStr ''1'', imageFile = None\<rparr>)
     = \<lparr>status = 500,
        body = [(''error'', JStr ''Content generation stopped due to safety concerns.''),
                (''details'', JObj [(''safetyRatings'', JUndefined)])]\<rparr>
   \<and> status (fst (GenerationController_generateContent None [''key1'', ''key2'']
         (\<lambda>key parts. Inl (OtherError ''Error'' ''Quota exceeded for this key'' []))
         \<lparr>nextKeyIndex = 0, model_calls = 0, upstream_calls = []\<rparr>
         \<lparr>prompt_field = JStr ''hi'', imageFile = None\<rparr>)) = 429
   \<and> generateContent_catch (OtherError ''Error'' ''API key not valid'' [])
     = ApiError 401 ''Authentication failed. Check your GOOGLE_AI_API_KEY.''
         (JObj [(''sdkError'', JStr ''API key not valid'')])
   \<and> generateContent_catch (OtherError ''Error'' ''fetch failed'' [])
     = ApiError 502 ''Error communicating with the Google AI service.''
         (JObj [(''sdkError'', JStr ''fetch failed'')])"
proof -
  let ?blocked = "JObj [(''promptFeedback'', JObj [(''blockReason'', JStr ''SAFETY'')])]"
  let ?safety = "JObj [(''candidates'', JArr [JObj [(''finishReason'', JStr ''SAFETY'')]])]"
  let ?quota = "OtherError ''Error'' ''Quota exceeded for this key'' []"
  let ?keys = "[''key1'', ''key2'']"
  let ?st = "\<lparr>nextKeyIndex = 0, model_calls = 0, upstream_calls = []\<rparr>"
  let ?req = "\<lparr>prompt_field = JStr ''hi'', imageFile = None\<rparr>"
  let ?req1 = "\<lparr>prompt_field = JStr ''1'', imageFile = None\<rparr>"
  have low: "toLowerCase ''Content generation blocked due to: SAFETY''
      = ''content generation blocked due to: safety''"
    "toLowerCase ''Received no response object from API.''
      = ''received no response object from api.''"
    "toLowerCase ''Content generation stopped due to safety concerns.''
      = ''content generation stopped due to safety concerns.''"
    by (simp_all add: lower_char_def)
  have inc: "str_includes ''content generation blocked due to: safety'' ''blocked''"
    "\<not> str_includes ''received no response object from api.'' ''blocked''"
    "\<not> str_includes ''content generation stopped due to safety concerns.'' ''blocked''"
    by (simp_all add: startsWith_def)
  have a: "present (tag_raw_type None (processResponse None ?blocked))
     = Inr \<lparr>status = 400,
            body = [(''error'', JStr ''Content generation blocked due to: SAFETY''),
                    (''details'', JObj [(''safetyRatings'', JUndefined)])]\<rparr>"
    using error_presentation [where env = None and r = ?blocked, THEN conjunct1]
    by (simp add: processResponse_blocked lookup_def low inc del: str_includes.simps toLowerCase.simps)
  have b: "present (tag_raw_type None (processResponse None JNull))
     = Inr \<lparr>status = 500,
            body = [(''error'', JStr ''Received no response object from API.''),
                    (''details'', JUndefined)]\<rparr>"
    using error_presentation [where env = None and r = JNull, THEN conjunct1]
    by (simp add: processResponse_null lookup_def low inc del: str_includes.simps toLowerCase.simps)
  have valid: "\<not> invalid_prompt (prompt_field ?req)" "\<not> invalid_prompt (prompt_field ?req1)"
    by (simp_all add: invalid_prompt_def trim_def trimStart_def trimEnd_def white_space_def
        match_length_def)
  have returned: "fst (GeminiModel_generateContent None ?keys
         (\<lambda>key parts. Inr (JObj [(''response'', ?blocked)])) ?st
         (trim (case prompt_field ?req of JStr s \<Rightarrow> s | _ \<Rightarrow> []))
         (map_option buffer (imageFile ?req)) (map_option mimetype (imageFile ?req)))
     = Inr (processResponse None ?blocked)"
    using model_layer_constant_backend [of "JObj [(''response'', ?blocked)]" ?blocked None ?keys ?st]
    by (simp add: get_def lookup_def)
  have f: "fst (GenerationController_generateContent None ?keys
         (\<lambda>key parts. Inr (JObj [(''response'', ?blocked)])) ?st ?req)
     = \<lparr>status = 400,
        body = [(''error'', JStr ''Content generation blocked due to: SAFETY''),
                (''details'', JObj [(''safetyRatings'', JUndefined)])]\<rparr>"
    using error_presentation [where env = None and req = ?req and keys = ?keys
        and backend = "\<lambda>key parts. Inr (JObj [(''response'', ?blocked)])" and st = ?st
        and out = "processResponse None ?blocked", THEN conjunct2, THEN conjunct1]
      valid(1) returned
    by (simp add: processResponse_blocked lookup_def low inc del: str_includes.simps toLowerCase.simps)
  have menu: "final_prompt_of (case prompt_field ?req1 of JStr s \<Rightarrow> s | _ \<Rightarrow> [])
      = Some (the (final_prompt_of ''1''))"
    by (simp add: final_prompt_of_def)
  have returned1: "fst (GeminiModel_generateContent (Some ''production'') ?keys
         (\<lambda>key parts. Inr (JObj [(''response'', ?safety)])) ?st
         (trim (the (final_prompt_of ''1'')))
         (map_option buffer (imageFile ?req1)) (map_option mimetype (imageFile ?req1)))
     = Inr (processResponse (Some ''production'') ?safety)"
    using model_layer_constant_backend [of "JObj [(''response'', ?safety)]" ?safety
        "Some ''production''" ?keys ?st]
    by (simp add: get_def lookup_def)
  have g: "fst (GenerationController_generateContent_part_002 (Some ''production'') ?keys
         (\<lambda>key parts. Inr (JObj [(''response'', ?safety)])) ?st ?req1)
     = \<lparr>status = 500,
        body = [(''error'', JStr ''Content generation stopped due to safety concerns.''),
                (''details'', JObj [(''safetyRatings'', JUndefined)])]\<rparr>"
    using error_presentation [where env = "Some ''production''" and req = ?req1 and keys = ?keys
        and backend = "\<lambda>key parts. Inr (JObj [(''response'', ?safety)])" and st = ?st
        and out = "processResponse (Some ''production'') ?safety"
        and final_prompt = "the (final_prompt_of ''1'')",
        THEN conjunct2, THEN conjunct2, THEN conjunct1]
      valid(2) menu returned1
    by (simp add: processResponse_safety lookup_def low inc del: str_includes.simps toLowerCase.simps)
  have catch: "generateContent_catch ?quota
     = ApiError 429 ''API quota exceeded. Please check your usage limits.''
         (JObj [(''sdkError'', JStr ''Quota exceeded for this key'')])"
    using error_presentation [where e = ?quota, THEN conjunct2, THEN conjunct2, THEN conjunct2,
        THEN conjunct2, THEN conjunct2, THEN conjunct2, THEN conjunct1]
    by (simp add: startsWith_def lookup_def)
  have thrown: "fst (GeminiModel_generateContent None ?keys
         (\<lambda>key parts. Inl ?quota) ?st (trim (case prompt_field ?req of JStr s \<Rightarrow> s | _ \<Rightarrow> []))
         (map_option buffer (imageFile ?req)) (map_option mimetype (imageFile ?req)))
     = Inl (ApiError 429 ''API quota exceeded. Please check your usage limits.''
         (JObj [(''sdkError'', JStr ''Quota exceeded for this key'')]))"
    by (simp add: GeminiModel_generateContent_def generateContent_try_def getNextGenAI_def
        send_request_def catch)
  have c: "status (fst (GenerationController_generateContent None ?keys
         (\<lambda>key parts. Inl ?quota) ?st ?req)) = 429"
    using error_presentation [where env = None and req = ?req and keys = ?keys
        and backend = "\<lambda>key parts. Inl ?quota" and st = ?st and sc = 429
        and msg = "''API quota exceeded. Please check your usage limits.''"
        and d = "JObj [(''sdkError'', JStr ''Quota exceeded for this key'')]",
        THEN conjunct2, THEN conjunct2, THEN conjunct2, THEN conjunct1] valid(1) thrown
    by blast
  have d: "generateContent_catch (OtherError ''Error'' ''API key not valid'' [])
     = ApiError 401 ''Authentication failed. Check your GOOGLE_AI_API_KEY.''
         (JObj [(''sdkError'', JStr ''API key not valid'')])"
    using error_presentation [where e = "OtherError ''Error'' ''API key not valid'' []",
        THEN conjunct2, THEN conjunct2, THEN conjunct2, THEN conjunct2, THEN conjunct2,
        THEN conjunct1]
    by (simp add: startsWith_def)
  have e: "generateContent_catch (OtherError ''Error'' ''fetch failed'' [])
     = ApiError 502 ''Error communicating with the Google AI service.''
         (JObj [(''sdkError'', JStr ''fetch failed'')])"
    using error_presentation [where e = "OtherError ''Error'' ''fetch failed'' []",
        THEN conjunct2, THEN conjunct2, THEN conjunct2, THEN conjunct2, THEN conjunct2,
        THEN conjunct2, THEN conjunct2]
    by (simp add: startsWith_def lookup_def)
  from a b f g c d e show ?thesis by (intro conjI)
qed

section \<open>An empty prompt fails fast (C7)\<close>

lemma errorMiddleware_no_details:
  "errorMiddleware env (ApiError sc m JNull) =
     \<lparr>status = sc,
      body = [(''error'', JStr m),
              (''message'', JStr (if env = Some ''production''
                                  then ''See error field for details.'' else m))]\<rparr>"
  by (simp add: errorMiddleware_def Let_def js_or_def)

lemma trim_empty: "trim [] = []"
  by (simp add: trim_def trimStart_def trimEnd_def)

lemma invalid_prompt_iff:
  "invalid_prompt p \<longleftrightarrow>
     p = JUndefined \<or> (\<forall>s. p \<noteq> JStr s) \<or> (\<exists>s. p = JStr s \<and> trim s = [])"
  by (cases p) (auto simp: invalid_prompt_def trim_empty)

text \<open>
  C7. When the prompt field of the request is missing, is not a string, or is a string that
  trims to the empty string, both revisions of the controller answer with status 400 and the
  error \<open>Text prompt (prompt) is required and cannot be empty.\<close>, and the process state is
  returned as it was: the model layer is not entered, the rotation cursor does not advance
  and no upstream call is made.
\<close>

theorem empty_prompt_fail_fast:
  assumes "prompt_field req = JUndefined
         \<or> (\<forall>s. prompt_field req \<noteq> JStr s)
         \<or> (\<exists>s. prompt_field req = JStr s \<and> trim s = [])"
  shows "GenerationController_generateContent env keys backend st req =
           (\<lparr>status = 400,
             body = [(''error'', JStr ''Text prompt (prompt) is required and cannot be empty.''),
                     (''message'', JStr (if env = Some ''production''
                        then ''See error field for details.''
                        else ''Text prompt (prompt) is required and cannot be empty.''))]\<rparr>,
            st)
       \<and> GenerationController_generateContent_part_002 env keys backend st req =
           (\<lparr>status = 400,
             body = [(''error'', JStr ''Text prompt (prompt) is required and cannot be empty.''),
                     (''message'', JStr (if env = Some ''production''
                        then ''See error field for details.''
                        else ''Text prompt (prompt) is required and cannot be empty.''))]\<rparr>,
            st)"
proof -
  from assms have "invalid_prompt (prompt_field req)"
    by (simp only: invalid_prompt_iff)
  then show ?thesis
    by (simp add: GenerationController_generateContent_def controller_try_def
        GenerationController_generateContent_part_002_def controller_try_part_002_def
        errorMiddleware_no_details)
qed

text \<open>
  The witness: a prompt of three spaces; a missing prompt; and a prompt made of a no-break
  space, a line separator, an ideographic space and a byte order mark.
\<close>

theorem empty_prompt_fail_fast_witness:
  "GenerationController_generateContent None [''key1'', ''key2'']
       (\<lambda>key parts. Inr (JObj []))
       \<lparr>nextKeyIndex = 1, model_calls = 7, upstream_calls = []\<rparr>
       \<lparr>prompt_field = JStr ''   '', imageFile = None\<rparr>
     = (\<lparr>status = 400,
         body = [(''error'', JStr ''Text prompt (prompt) is required and cannot be empty.''),
                 (''message'', JStr ''Text prompt (prompt) is required and cannot be empty.'')]\<rparr>,
        \<lparr>nextKeyIndex = 1, model_calls = 7, upstream_calls = []\<rparr>)
   \<and> GenerationController_generateContent_part_002 (Some ''production'') [''key1'', ''key2'']
       (\<lambda>key parts. Inr (JObj []))
       \<lparr>nextKeyIndex = 1, model_calls = 7, upstream_calls = []\<rparr>
       \<lparr>prompt_field = JUndefined, imageFile = None\<rparr>
     = (\<lparr>status = 400,
         body = [(''error'', JStr ''Text prompt (prompt) is required and cannot be empty.''),
                 (''message'', JStr ''See error field for details.'')]\<rparr>,
        \<lparr>nextKeyIndex = 1, model_calls = 7, upstream_calls = []\<rparr>)
   \<and> GenerationController_generateContent (Some ''production'') [''key1'', ''key2'']
       (\<lambda>key parts. Inr (JObj []))
       \<lparr>nextKeyIndex = 1, model_calls = 7, upstream_calls = []\<rparr>
       \<lparr>prompt_field = JStr [CHR 0xC2, CHR 0xA0, CHR 0xE2, CHR 0x80, CHR 0xA8,
                              CHR 0xE3, CHR 0x80, CHR 0x80, CHR 0xEF, CHR 0xBB, CHR 0xBF],
        imageFile = None\<rparr>
     = (\<lparr>status = 400,
         body = [(''error'', JStr ''Text prompt (prompt) is required and cannot be empty.''),
                 (''message'', JStr ''See error field for details.'')]\<rparr>,
        \<lparr>nextKeyIndex = 1, model_calls = 7, upstream_calls = []\<rparr>)"
proof -
  let ?wide = "[CHR 0xC2, CHR 0xA0, CHR 0xE2, CHR 0x80, CHR 0xA8,
                CHR 0xE3, CHR 0x80, CHR 0x80, CHR 0xEF, CHR 0xBB, CHR 0xBF]"
  let ?st = "\<lparr>nextKeyIndex = 1, model_calls = 7, upstream_calls = []\<rparr>"
  have blank: "trim ''   '' = []" "trim ?wide = []"
    by (simp_all add: trim_def trimStart_def trimEnd_def white_space_def match_length_def)
  have a: "prompt_field \<lparr>prompt_field = JStr ''   '', imageFile = None\<rparr> = JUndefined
         \<or> (\<forall>s. prompt_field \<lparr>prompt_field = JStr ''   '', imageFile = None\<rparr> \<noteq> JStr s)
         \<or> (\<exists>s. prompt_field \<lparr>prompt_field = JStr ''   '', imageFile = None\<rparr> = JStr s \<and> trim s = [])"
    using blank(1) by simp
  have b: "prompt_field \<lparr>prompt_field = JUndefined, imageFile = None\<rparr> = JUndefined
         \<or> (\<forall>s. prompt_field \<lparr>prompt_field = JUndefined, imageFile = None\<rparr> \<noteq> JStr s)
         \<or> (\<exists>s. prompt_field \<lparr>prompt_field = JUndefined, imageFile = None\<rparr> = JStr s \<and> trim s = [])"
    by simp
  have c: "prompt_field \<lparr>prompt_field = JStr ?wide, imageFile = None\<rparr> = JUndefined
         \<or> (\<forall>s. prompt_field \<lparr>prompt_field = JStr ?wide, imageFile = None\<rparr> \<noteq> JStr s)
         \<or> (\<exists>s. prompt_field \<lparr>prompt_field = JStr ?wide, imageFile = None\<rparr> = JStr s \<and> trim s = [])"
    using blank(2) by simp
  from empty_prompt_fail_fast [OF a, of None "[''key1'', ''key2'']" "\<lambda>key parts. Inr (JObj [])" ?st,
      THEN conjunct1]
    empty_prompt_fail_fast [OF b, of "Some ''production''" "[''key1'', ''key2'']"
      "\<lambda>key parts. Inr (JObj [])" ?st, THEN conjunct2]
    empty_prompt_fail_fast [OF c, of "Some ''production''" "[''key1'', ''key2'']"
      "\<lambda>key parts. Inr (JObj [])" ?st, THEN conjunct1]
  show ?thesis by simp
qed

text \<open>
  For comparison: every entry into the model layer is counted, and a valid prompt
  enters it once.
\<close>

lemma generateContent_counts:
  "model_calls (snd (GeminiModel_generateContent env keys backend st p b m)) = Suc (model_calls st)"
  by (auto simp: GeminiModel_generateContent_def generateContent_try_def send_request_def Let_def
      split: prod.splits sum.splits option.splits)

lemma valid_prompt_invokes_model:
  "\<not> invalid_prompt (prompt_field req) \<Longrightarrow>
   model_calls (snd (GenerationController_generateContent env keys backend st req))
     = Suc (model_calls st)"
  using generateContent_counts [of env keys backend st
      "trim (case prompt_field req of JStr s \<Rightarrow> s | _ \<Rightarrow> [])"
      "map_option buffer (imageFile req)" "map_option mimetype (imageFile req)"]
  by (auto simp: GenerationController_generateContent_def controller_try_def
      split: prod.splits sum.splits)

section \<open>What the controller does to the outcome (C9)\<close>

lemma present_tagged:
  assumes "type out = ''image'' \<or> type out = ''text''"
  shows "present (tag_raw_type env out) =
           Inr \<lparr>status = 200,
                body = (if env = Some ''production'' then data out
                        else AList.update ''_raw_model_response_type'' (JStr (type out))
                               (data out))\<rparr>"
  using assms by (auto simp: present_def tag_raw_type_def)

lemma present_part_002_tagged:
  "type out = ''image'' \<Longrightarrow>
     present_part_002 (tag_raw_type env out) =
       Inr \<lparr>status = 200,
            body = [(''imageUrl'', lookup (data out) ''imageUrl''),
                    (''text'', js_or (lookup (data out) ''text'') JNull)]\<rparr>"
  "type out = ''text'' \<Longrightarrow>
     present_part_002 (tag_raw_type env out) =
       Inr \<lparr>status = 200, body = [(''text'', lookup (data out) ''text'')]\<rparr>"
  by (simp_all add: present_part_002_def tag_raw_type_def lookup_update)

lemma present_empty_tagged:
  assumes "type out = ''empty''"
  shows "present (tag_raw_type env out) =
           Inr \<lparr>status = 200,
                body = [(''message'', js_or (lookup (data out) ''text'')
                                            (JStr ''No content generated.''))]\<rparr>"
    and "present_part_002 (tag_raw_type env out) =
           Inr \<lparr>status = 200,
                body = [(''message'', js_or (lookup (data out) ''text'')
                                            (JStr ''No content generated.''))]\<rparr>"
  using assms by (simp_all add: present_def present_part_002_def tag_raw_type_def lookup_update)

text \<open>
  C9, as amended. The outcome that the controller receives from the model layer is an
  outcome of the classifier. With \<open>NODE_ENV\<close> set to \<open>production\<close> the controller leaves it
  as it is; in every other environment, also when \<open>NODE_ENV\<close> is not set, it first writes
  one property into the \<open>data\<close> object, \<open>_raw_model_response_type\<close> with the type of the
  outcome, and leaves the type and every other property unchanged. For an outcome of type
  \<open>image\<close> or \<open>text\<close> the controller of \<open>src/controllers/generationController.js\<close> answers
  200 with that \<open>data\<close> object as the body: property for property the object of the
  classifier in production, and the same with the added property elsewhere. The controller
  of \<open>src/unnamed/part_002\<close> builds a new body in every environment, \<open>{imageUrl, text}\<close>
  with \<open>text\<close> replaced by \<open>null\<close> when it is empty or missing for an image and \<open>{text}\<close>
  for a text, so its body never carries the added property. For an outcome of type
  \<open>empty\<close> both controllers answer 200 with a body of one property, \<open>message\<close>, which is
  the \<open>text\<close> of the outcome or, when that is empty or missing, \<open>No content generated.\<close>
\<close>

theorem outcome_tagging:
  "(fst (GeminiModel_generateContent env keys backend st p b m) = Inr out \<longrightarrow>
      (\<exists>r. out = processResponse env r))
   \<and> tag_raw_type (Some ''production'') out = out
   \<and> (type out = ''image'' \<or> type out = ''text'' \<longrightarrow>
        present (tag_raw_type (Some ''production'') out) = Inr \<lparr>status = 200, body = data out\<rparr>)
   \<and> (env \<noteq> Some ''production'' \<longrightarrow>
        type (tag_raw_type env out) = type out
        \<and> lookup (data (tag_raw_type env out)) ''_raw_model_response_type'' = JStr (type out)
        \<and> (\<forall>k. k \<noteq> ''_raw_model_response_type'' \<longrightarrow>
              lookup (data (tag_raw_type env out)) k = lookup (data out) k)
        \<and> (type out = ''image'' \<or> type out = ''text'' \<longrightarrow>
              present (tag_raw_type env out) =
                Inr \<lparr>status = 200,
                     body = AList.update ''_raw_model_response_type'' (JStr (type out))
                              (data out)\<rparr>))
   \<and> (\<not> invalid_prompt (prompt_field req)
        \<and> fst (GeminiModel_generateContent env keys backend st
                (trim (case prompt_field req of JStr s \<Rightarrow> s | _ \<Rightarrow> []))
                (map_option buffer (imageFile req)) (map_option mimetype (imageFile req)))
           = Inr out
        \<and> (type out = ''image'' \<or> type out = ''text'') \<longrightarrow>
      fst (GenerationController_generateContent env keys backend st req) =
        \<lparr>status = 200,
         body = (if env = Some ''production'' then data out
                 else AList.update ''_raw_model_response_type'' (JStr (type out)) (data out))\<rparr>)
   \<and> (\<not> invalid_prompt (prompt_field req)
        \<and> final_prompt_of (case prompt_field req of JStr s \<Rightarrow> s | _ \<Rightarrow> []) = Some final_prompt
        \<and> fst (GeminiModel_generateContent env keys backend st (trim final_prompt)
                (map_option buffer (imageFile req)) (map_option mimetype (imageFile req)))
           = Inr out
        \<and> type out = ''image'' \<longrightarrow>
      fst (GenerationController_generateContent_part_002 env keys backend st req) =
        \<lparr>status = 200,
         body = [(''imageUrl'', lookup (data out) ''imageUrl''),
                 (''text'', js_or (lookup (data out) ''text'') JNull)]\<rparr>)
   \<and> (\<not> invalid_prompt (prompt_field req)
        \<and> final_prompt_of (case prompt_field req of JStr s \<Rightarrow> s | _ \<Rightarrow> []) = Some final_prompt
        \<and> fst (GeminiModel_generateContent env keys backend st (trim final_prompt)
                (map_option buffer (imageFile req)) (map_option mimetype (imageFile req)))
           = Inr out
        \<and> type out = ''text'' \<longrightarrow>
      fst (GenerationController_generateContent_part_002 env keys backend st req) =
        \<lparr>status = 200, body = [(''text'', lookup (data out) ''text'')]\<rparr>)
   \<and> (\<not> invalid_prompt (prompt_field req)
        \<and> fst (GeminiModel_generateContent env keys backend st
                (trim (case prompt_field req of JStr s \<Rightarrow> s | _ \<Rightarrow> []))
                (map_option buffer (imageFile req)) (map_option mimetype (imageFile req)))
           = Inr out
        \<and> type out = ''empty'' \<longrightarrow>
      fst (GenerationController_generateContent env keys backend st req) =
        \<lparr>status = 200,
         body = [(''message'', js_or (lookup (data out) ''text'')
                                     (JStr ''No content generated.''))]\<rparr>)
   \<and> (\<not> invalid_prompt (prompt_field req)
        \<and> final_prompt_of (case prompt_field req of JStr s \<Rightarrow> s | _ \<Rightarrow> []) = Some final_prompt
        \<and> fst (GeminiModel_generateContent env keys backend st (trim final_prompt)
                (map_option buffer (imageFile req)) (map_option mimetype (imageFile req)))
           = Inr out
        \<and> type out = ''empty'' \<longrightarrow>
      fst (GenerationController_generateContent_part_002 env keys backend st req) =
        \<lparr>status = 200,
         body = [(''message'', js_or (lookup (data out) ''text'')
                                     (JStr ''No content generated.''))]\<rparr>)"
proof (intro conjI impI)
  assume "fst (GeminiModel_generateContent env keys backend st p b m) = Inr out"
  then show "\<exists>r. out = processResponse env r" by (rule model_layer_result)
next
  show "tag_raw_type (Some ''production'') out = out"
    by (simp add: tag_raw_type_def)
next
  assume "type out = ''image'' \<or> type out = ''text''"
  then show "present (tag_raw_type (Some ''production'') out)
      = Inr \<lparr>status = 200, body = data out\<rparr>"
    by (simp add: present_tagged)
next
  assume "env \<noteq> Some ''production''"
  then show "type (tag_raw_type env out) = type out"
    and "lookup (data (tag_raw_type env out)) ''_raw_model_response_type'' = JStr (type out)"
    and "\<forall>k. k \<noteq> ''_raw_model_response_type'' \<longrightarrow>
              lookup (data (tag_raw_type env out)) k = lookup (data out) k"
    by (simp_all add: tag_raw_type_def lookup_update)
next
  assume "env \<noteq> Some ''production''" and "type out = ''image'' \<or> type out = ''text''"
  then show "present (tag_raw_type env out) =
                Inr \<lparr>status = 200,
                     body = AList.update ''_raw_model_response_type'' (JStr (type out))
                              (data out)\<rparr>"
    by (simp add: present_tagged)
next
  assume h: "\<not> invalid_prompt (prompt_field req)
        \<and> fst (GeminiModel_generateContent env keys backend st
                (trim (case prompt_field req of JStr s \<Rightarrow> s | _ \<Rightarrow> []))
                (map_option buffer (imageFile req)) (map_option mimetype (imageFile req)))
           = Inr out
        \<and> (type out = ''image'' \<or> type out = ''text'')"
  then have t: "type out = ''image'' \<or> type out = ''text''" by simp
  from h show "fst (GenerationController_generateContent env keys backend st req) =
        \<lparr>status = 200,
         body = (if env = Some ''production'' then data out
                 else AList.update ''_raw_model_response_type'' (JStr (type out)) (data out))\<rparr>"
    using controller_presents [OF _ _ present_tagged [OF t]] by blast
next
  assume h: "\<not> invalid_prompt (prompt_field req)
        \<and> final_prompt_of (case prompt_field req of JStr s \<Rightarrow> s | _ \<Rightarrow> []) = Some final_prompt
        \<and> fst (GeminiModel_generateContent env keys backend st (trim final_prompt)
                (map_option buffer (imageFile req)) (map_option mimetype (imageFile req)))
           = Inr out
        \<and> type out = ''image''"
  then have t: "type out = ''image''" by simp
  from h show "fst (GenerationController_generateContent_part_002 env keys backend st req) =
        \<lparr>status = 200,
         body = [(''imageUrl'', lookup (data out) ''imageUrl''),
                 (''text'', js_or (lookup (data out) ''text'') JNull)]\<rparr>"
    using controller_presents_part_002 [OF _ _ _ present_part_002_tagged(1) [OF t]] by blast
next
  assume h: "\<not> invalid_prompt (prompt_field req)
        \<and> final_prompt_of (case prompt_field req of JStr s \<Rightarrow> s | _ \<Rightarrow> []) = Some final_prompt
        \<and> fst (GeminiModel_generateContent env keys backend st (trim final_prompt)
                (map_option buffer (imageFile req)) (map_option mimetype (imageFile req)))
           = Inr out
        \<and> type out = ''text''"
  then have t: "type out = ''text''" by simp
  from h show "fst (GenerationController_generateContent_part_002 env keys backend st req) =
        \<lparr>status = 200, body = [(''text'', lookup (data out) ''text'')]\<rparr>"
    using controller_presents_part_002 [OF _ _ _ present_part_002_tagged(2) [OF t]] by blast
next
  assume h: "\<not> invalid_prompt (prompt_field req)
        \<and> fst (GeminiModel_generateContent env keys backend st
                (trim (case prompt_field req of JStr s \<Rightarrow> s | _ \<Rightarrow> []))
                (map_option buffer (imageFile req)) (map_option mimetype (imageFile req)))
           = Inr out
        \<and> type out = ''empty''"
  then have t: "type out = ''empty''" by simp
  from h show "fst (GenerationController_generateContent env keys backend st req) =
        \<lparr>status = 200,
         body = [(''message'', js_or (lookup (data out) ''text'')
                                     (JStr ''No content generated.''))]\<rparr>"
    using controller_presents [OF _ _ present_empty_tagged(1) [OF t]] by blast
next
  assume h: "\<not> invalid_prompt (prompt_field req)
        \<and> final_prompt_of (case prompt_field req of JStr s \<Rightarrow> s | _ \<Rightarrow> []) = Some final_prompt
        \<and> fst (GeminiModel_generateContent env keys backend st (trim final_prompt)
                (map_option buffer (imageFile req)) (map_option mimetype (imageFile req)))
           = Inr out
        \<and> type out = ''empty''"
  then have t: "type out = ''empty''" by simp
  from h show "fst (GenerationController_generateContent_part_002 env keys backend st req) =
        \<lparr>status = 200,
         body = [(''message'', js_or (lookup (data out) ''text'')
                                     (JStr ''No content generated.''))]\<rparr>"
    using controller_presents_part_002 [OF _ _ _ present_empty_tagged(2) [OF t]] by blast
qed

text \<open>
  The theorem at work. The upstream service answers with the text \<open>hi\<close>: in production
  the first controller sends the \<open>data\<close> object of the classifier, outside production the
  same object with the added property, and the controller of \<open>src/unnamed/part_002\<close> sends
  \<open>{text}\<close> alone. The upstream service answers with an image and an empty text part: the
  controller of \<open>src/unnamed/part_002\<close> sends \<open>null\<close> for the text.
\<close>

theorem outcome_tagging_witness:
  "fst (GenerationController_generateContent (Some ''production'') [''key1'', ''key2'']
         (\<lambda>key parts. Inr (JObj [(''response'', single_candidate (JStr ''STOP'') [PText ''hi''])]))
         \<lparr>nextKeyIndex = 0, model_calls = 0, upstream_calls = []\<rparr>
         \<lparr>prompt_field = JStr ''hi'', imageFile = None\<rparr>)
     = \<lparr>status = 200,
        body = data (processResponse (Some ''production'')
                       (single_candidate (JStr ''STOP'') [PText ''hi'']))\<rparr>
   \<and> data (processResponse (Some ''production'') (single_candidate (JStr ''STOP'') [PText ''hi'']))
     = [(''text'', JStr ''hi'')]
   \<and> fst (GenerationController_generateContent None [''key1'', ''key2'']
         (\<lambda>key parts. Inr (JObj [(''response'', single_candidate (JStr ''STOP'') [PText ''hi''])]))
         \<lparr>nextKeyIndex = 0, model_calls = 0, upstream_calls = []\<rparr>
         \<lparr>prompt_field = JStr ''hi'', imageFile = None\<rparr>)
     = \<lparr>status = 200,
        body = [(''text'', JStr ''hi''), (''_raw_model_response_type'', JStr ''text'')]\<rparr>
   \<and> fst (GenerationController_generateContent_part_002 None [''key1'', ''key2'']
         (\<lambda>key parts. Inr (JObj [(''response'', single_candidate (JStr ''STOP'') [PText ''hi''])]))
         \<lparr>nextKeyIndex = 0, model_calls = 0, upstream_calls = []\<rparr>
         \<lparr>prompt_field = JStr ''1'', imageFile = None\<rparr>)
     = \<lparr>status = 200, body = [(''text'', JStr ''hi'')]\<rparr>
   \<and> fst (GenerationController_generateContent_part_002 None [''key1'', ''key2'']
         (\<lambda>key parts. Inr (JObj [(''response'',
              single_candidate (JStr ''STOP'') [PText '''', PInline ''image/png'' ''QUJD''])]))
         \<lparr>nextKeyIndex = 0, model_calls = 0, upstream_calls = []\<rparr>
         \<lparr>prompt_field = JStr ''1'', imageFile = None\<rparr>)
     = \<lparr>status = 200,
        body = [(''imageUrl'', JStr ''data:image/png;base64,QUJD''), (''text'', JNull)]\<rparr>"
proof -
  let ?keys = "[''key1'', ''key2'']"
  let ?st = "\<lparr>nextKeyIndex = 0, model_calls = 0, upstream_calls = []\<rparr>"
  let ?req = "\<lparr>prompt_field = JStr ''hi'', imageFile = None\<rparr>"
  let ?req1 = "\<lparr>prompt_field = JStr ''1'', imageFile = None\<rparr>"
  let ?hi = "single_candidate (JStr ''STOP'') [PText ''hi'']"
  let ?img = "single_candidate (JStr ''STOP'') [PText '''', PInline ''image/png'' ''QUJD'']"
  have stop: "\<not> truthy (JStr ''STOP'') \<or> JStr ''STOP'' = JStr ''STOP''" by simp
  have hi: "processResponse env ?hi = \<lparr>type = ''text'', data = [(''text'', JStr ''hi'')]\<rparr>"
    for env
    by (simp add: processResponse_def loop_typed [OF stop] scan_result_def text_value_def)
  have img: "processResponse env ?img
      = \<lparr>type = ''image'',
         data = [(''imageUrl'', JStr ''data:image/png;base64,QUJD''), (''text'', JStr '''')]\<rparr>"
    for env
    by (simp add: processResponse_def loop_typed [OF stop] scan_result_def text_value_def
        startsWith_def template_def)
  have valid: "\<not> invalid_prompt (prompt_field ?req)" "\<not> invalid_prompt (prompt_field ?req1)"
    by (simp_all add: invalid_prompt_def trim_def trimStart_def trimEnd_def white_space_def
        match_length_def)
  have menu: "final_prompt_of (case prompt_field ?req1 of JStr s \<Rightarrow> s | _ \<Rightarrow> [])
      = Some (the (final_prompt_of ''1''))"
    by (simp add: final_prompt_of_def)
  have returned: "fst (GeminiModel_generateContent env ?keys
         (\<lambda>key parts. Inr (JObj [(''response'', r)])) ?st p
         (map_option buffer (imageFile rq)) (map_option mimetype (imageFile rq)))
     = Inr (processResponse env r)" if "imageFile rq = None" for env r p rq
    using model_layer_constant_backend [of "JObj [(''response'', r)]" r env ?keys ?st p] that
    by (simp add: get_def lookup_def)
  have a: "fst (GenerationController_generateContent (Some ''production'') ?keys
         (\<lambda>key parts. Inr (JObj [(''response'', ?hi)])) ?st ?req)
     = \<lparr>status = 200, body = data (processResponse (Some ''production'') ?hi)\<rparr>"
    using outcome_tagging [where env = "Some ''production''" and req = ?req and keys = ?keys
        and backend = "\<lambda>key parts. Inr (JObj [(''response'', ?hi)])" and st = ?st
        and out = "processResponse (Some ''production'') ?hi",
        THEN conjunct2, THEN conjunct2, THEN conjunct2, THEN conjunct2, THEN conjunct1]
      valid(1) returned [of ?req]
    by (simp add: hi)
  have b: "fst (GenerationController_generateContent None ?keys
         (\<lambda>key parts. Inr (JObj [(''response'', ?hi)])) ?st ?req)
     = \<lparr>status = 200,
        body = [(''text'', JStr ''hi''), (''_raw_model_response_type'', JStr ''text'')]\<rparr>"
    using outcome_tagging [where env = None and req = ?req and keys = ?keys
        and backend = "\<lambda>key parts. Inr (JObj [(''response'', ?hi)])" and st = ?st
        and out = "processResponse None ?hi",
        THEN conjunct2, THEN conjunct2, THEN conjunct2, THEN conjunct2, THEN conjunct1]
      valid(1) returned [of ?req]
    by (simp add: hi)
  have c: "fst (GenerationController_generateContent_part_002 None ?keys
         (\<lambda>key parts. Inr (JObj [(''response'', ?hi)])) ?st ?req1)
     = \<lparr>status = 200, body = [(''text'', JStr ''hi'')]\<rparr>"
    using outcome_tagging [where env = None and req = ?req1 and keys = ?keys
        and backend = "\<lambda>key parts. Inr (JObj [(''response'', ?hi)])" and st = ?st
        and out = "processResponse None ?hi" and final_prompt = "the (final_prompt_of ''1'')",
        THEN conjunct2, THEN conjunct2, THEN conjunct2, THEN conjunct2, THEN conjunct2,
        THEN conjunct2, THEN conjunct1]
      valid(2) menu returned [of ?req1]
    by (simp add: hi lookup_def)
  have d: "fst (GenerationController_generateContent_part_002 None ?keys
         (\<lambda>key parts. Inr (JObj [(''response'', ?img)])) ?st ?req1)
     = \<lparr>status = 200,
        body = [(''imageUrl'', JStr ''data:image/png;base64,QUJD''), (''text'', JNull)]\<rparr>"
    using outcome_tagging [where env = None and req = ?req1 and keys = ?keys
        and backend = "\<lambda>key parts. Inr (JObj [(''response'', ?img)])" and st = ?st
        and out = "processResponse None ?img" and final_prompt = "the (final_prompt_of ''1'')",
        THEN conjunct2, THEN conjunct2, THEN conjunct2, THEN conjunct2, THEN conjunct2,
        THEN conjunct1]
      valid(2) menu returned [of ?req1]
    by (simp add: img lookup_def js_or_def)
  from a hi [of "Some ''production''"] b c d show ?thesis by simp
qed

text \<open>
  The claim as the specification has it fails. Outside production the first controller
  sends a body with a property that the classifier did not return; and the controller of
  \<open>src/unnamed/part_002\<close>, in production as well, sends \<open>null\<close> where the classifier
  returned the empty string.
\<close>

theorem outcome_tagging_counterexample:
  "body (fst (GenerationController_generateContent None [''key1'', ''key2'']
         (\<lambda>key parts. Inr (JObj [(''response'', single_candidate (JStr ''STOP'') [PText ''hi''])]))
         \<lparr>nextKeyIndex = 0, model_calls = 0, upstream_calls = []\<rparr>
         \<lparr>prompt_field = JStr ''hi'', imageFile = None\<rparr>))
     \<noteq> data (processResponse None (single_candidate (JStr ''STOP'') [PText ''hi'']))
   \<and> body (fst (GenerationController_generateContent None [''key1'', ''key2'']
         (\<lambda>key parts. Inr (JObj [(''response'', single_candidate (JStr ''STOP'') [PText ''hi''])]))
         \<lparr>nextKeyIndex = 0, model_calls = 0, upstream_calls = []\<rparr>
         \<lparr>prompt_field = JStr ''hi'', imageFile = None\<rparr>))
     = [(''text'', JStr ''hi''), (''_raw_model_response_type'', JStr ''text'')]
   \<and> data (processResponse None (single_candidate (JStr ''STOP'') [PText ''hi'']))
     = [(''text'', JStr ''hi'')]
   \<and> body (fst (GenerationController_generateContent_part_002 (Some ''production'')
         [''key1'', ''key2'']
         (\<lambda>key parts. Inr (JObj [(''response'',
              single_candidate (JStr ''STOP'') [PText '''', PInline ''image/png'' ''QUJD''])]))
         \<lparr>nextKeyIndex = 0, model_calls = 0, upstream_calls = []\<rparr>
         \<lparr>prompt_field = JStr ''1'', imageFile = None\<rparr>))
     \<noteq> data (processResponse (Some ''production'')
           (single_candidate (JStr ''STOP'') [PText '''', PInline ''image/png'' ''QUJD'']))
   \<and> body (fst (GenerationController_generateContent_part_002 (Some ''production'')
         [''key1'', ''key2'']
         (\<lambda>key parts. Inr (JObj [(''response'',
              single_candidate (JStr ''STOP'') [PText '''', PInline ''image/png'' ''QUJD''])]))
         \<lparr>nextKeyIndex = 0, model_calls = 0, upstream_calls = []\<rparr>
         \<lparr>prompt_field = JStr ''1'', imageFile = None\<rparr>))
     = [(''imageUrl'', JStr ''data:image/png;base64,QUJD''), (''text'', JNull)]
   \<and> data (processResponse (Some ''production'')
           (single_candidate (JStr ''STOP'') [PText '''', PInline ''image/png'' ''QUJD'']))
     = [(''imageUrl'', JStr ''data:image/png;base64,QUJD''), (''text'', JStr '''')]"
proof -
  let ?keys = "[''key1'', ''key2'']"
  let ?st = "\<lparr>nextKeyIndex = 0, model_calls = 0, upstream_calls = []\<rparr>"
  let ?req = "\<lparr>prompt_field = JStr ''hi'', imageFile = None\<rparr>"
  let ?req1 = "\<lparr>prompt_field = JStr ''1'', imageFile = None\<rparr>"
  let ?hi = "single_candidate (JStr ''STOP'') [PText ''hi'']"
  let ?img = "single_candidate (JStr ''STOP'') [PText '''', PInline ''image/png'' ''QUJD'']"
  have stop: "\<not> truthy (JStr ''STOP'') \<or> JStr ''STOP'' = JStr ''STOP''" by simp
  have hi: "processResponse None ?hi = \<lparr>type = ''text'', data = [(''text'', JStr ''hi'')]\<rparr>"
    by (simp add: processResponse_def loop_typed [OF stop] scan_result_def text_value_def)
  have img: "processResponse (Some ''production'') ?img
      = \<lparr>type = ''image'',
         data = [(''imageUrl'', JStr ''data:image/png;base64,QUJD''), (''text'', JStr '''')]\<rparr>"
    by (simp add: processResponse_def loop_typed [OF stop] scan_result_def text_value_def
        startsWith_def template_def)
  have valid: "\<not> invalid_prompt (prompt_field ?req)" "\<not> invalid_prompt (prompt_field ?req1)"
    by (simp_all add: invalid_prompt_def trim_def trimStart_def trimEnd_def white_space_def
        match_length_def)
  have menu: "final_prompt_of (case prompt_field ?req1 of JStr s \<Rightarrow> s | _ \<Rightarrow> [])
      = Some (the (final_prompt_of ''1''))"
    by (simp add: final_prompt_of_def)
  have returned: "fst (GeminiModel_generateContent env ?keys
         (\<lambda>key parts. Inr (JObj [(''response'', r)])) ?st p
         (map_option buffer (imageFile rq)) (map_option mimetype (imageFile rq)))
     = Inr (processResponse env r)" if "imageFile rq = None" for env r p rq
    using model_layer_constant_backend [of "JObj [(''response'', r)]" r env ?keys ?st p] that
    by (simp add: get_def lookup_def)
  have a: "fst (GenerationController_generateContent None ?keys
         (\<lambda>key parts. Inr (JObj [(''response'', ?hi)])) ?st ?req)
     = \<lparr>status = 200,
        body = [(''text'', JStr ''hi''), (''_raw_model_response_type'', JStr ''text'')]\<rparr>"
    by (rule controller_presents [OF valid(1) returned])
       (simp_all add: hi present_def tag_raw_type_def)
  have b: "fst (GenerationController_generateContent_part_002 (Some ''production'') ?keys
         (\<lambda>key parts. Inr (JObj [(''response'', ?img)])) ?st ?req1)
     = \<lparr>status = 200,
        body = [(''imageUrl'', JStr ''data:image/png;base64,QUJD''), (''text'', JNull)]\<rparr>"
    by (rule controller_presents_part_002 [OF valid(2) menu returned])
       (simp_all add: img present_part_002_def tag_raw_type_def lookup_def js_or_def)
  show ?thesis by (simp add: a b hi img)
qed

section \<open>An invalid MIME type (C5)\<close>

text \<open>
  C5, what the code does. The model layer throws \<open>ApiError(400, 'Invalid image MIME type
  provided.')\<close> inside its own \<open>try\<close> block; the \<open>catch\<close> block of the same function
  receives it, finds none of its patterns in the message, and throws the generic upstream
  error instead. A call with an image buffer and the MIME type \<open>text/plain\<close> therefore
  fails with status 502, not 400. No upstream call is made, but the rotation cursor has
  advanced.
\<close>

theorem invalid_mime_type_status:
  "GeminiModel_generateContent None (apiKeys ''key1'' ''key2'') (\<lambda>key parts. Inr (JObj []))
       \<lparr>nextKeyIndex = 0, model_calls = 0, upstream_calls = []\<rparr>
       ''Add sunglasses'' (Some [137, 80, 78, 71]) (Some ''text/plain'')
     = (Inl (ApiError 502 ''Error communicating with the Google AI service.''
               (JObj [(''sdkError'', JStr ''Invalid image MIME type provided.'')])),
        \<lparr>nextKeyIndex = 1, model_calls = 1, upstream_calls = []\<rparr>)"
proof -
  have no: "\<not> str_includes ''Invalid image MIME type provided.'' ''response was blocked''"
    "\<not> str_includes ''Invalid image MIME type provided.'' ''API key not valid''"
    "\<not> str_includes ''Invalid image MIME type provided.'' ''Quota exceeded''"
    by (simp_all add: startsWith_def)
  have catch: "generateContent_catch (ApiError 400 ''Invalid image MIME type provided.'' JNull)
      = ApiError 502 ''Error communicating with the Google AI service.''
               (JObj [(''sdkError'', JStr ''Invalid image MIME type provided.'')])"
    using no by (simp add: generateContent_catch_def Let_def del: str_includes.simps)
  show ?thesis
    by (simp add: GeminiModel_generateContent_def generateContent_try_def getNextGenAI_def
        apiKeys_def startsWith_def catch)
qed

end
